theory Spec2Isabelle
  imports
    Complex_Main
    "HOL-Library.Log_Nat"
    "HOL-Library.Sublist"
    "HOL-Library.Char_ord"
    "HOL-Library.List_Lexorder"
begin

section \<open>JavaScript values\<close>

text \<open>
  The invoice actions of \<^verbatim>\<open>/app/lib/actions.ts\<close> and the invoices page of
  \<^verbatim>\<open>/app/dashboard/invoices/page.tsx\<close> run on JavaScript values: form entries are
  strings, files or \<^verbatim>\<open>null\<close>, \<^verbatim>\<open>z.coerce.number()\<close> applies \<^verbatim>\<open>Number\<close> to
  whatever it is given, and \<^verbatim>\<open>amount * 100\<close> is a multiplication of doubles.

  A JavaScript number is an IEEE 754 double: \<open>NaN\<close>, the two infinities, or a finite
  value, kept here as the rational it denotes. The two zeros are one value \<open>Fin 0\<close>:
  they compare equal in JavaScript (\<^verbatim>\<open>-0 === 0\<close>) and nothing below tells them apart.
\<close>

datatype jsnum = NaN | PosInf | NegInf | Fin rat

datatype jsval = JUndefined | JNull | JString string | JNumber jsnum | JFile

subsection \<open>Rounding to a double\<close>

text \<open>
  \<open>ilog2 a\<close> is the binary exponent of a positive rational: \<open>2 powi ilog2 a \<le> a < 2 powi (ilog2 a + 1)\<close>.
\<close>

definition ilog2 :: "rat \<Rightarrow> int" where
  "ilog2 a = (case quotient_of a of (n, d) \<Rightarrow>
     (let k = bitlen n - bitlen d in if 2 powi k \<le> a then k else k - 1))"

definition round_half_even :: "rat \<Rightarrow> int" where
  "round_half_even q =
     (let f = \<lfloor>q\<rfloor>; r = q - of_int f
      in if r < 1 / 2 then f else if 1 / 2 < r then f + 1
         else if even f then f else f + 1)"

text \<open>
  Round to nearest, ties to even, with 53 bits of significand, gradual underflow below
  \<open>2 powi (- 1022)\<close> (the spacing of doubles never gets finer than \<open>2 powi (- 1074)\<close>) and
  overflow to an infinity from \<open>2 ^ 1024\<close> on.
\<close>

definition round_double :: "rat \<Rightarrow> jsnum" where
  "round_double q =
     (if q = 0 then Fin 0
      else let a = \<bar>q\<bar>;
               ex = max (ilog2 a - 52) (- 1074);
               v = of_int (round_half_even (a / 2 powi ex)) * 2 powi ex
           in if 2 ^ 1024 \<le> v then (if q < 0 then NegInf else PosInf)
              else Fin (if q < 0 then - v else v))"

subsection \<open>Multiplication and truthiness\<close>

definition js_sign :: "jsnum \<Rightarrow> int" where
  "js_sign x =
     (case x of
        NaN \<Rightarrow> 0
      | PosInf \<Rightarrow> 1
      | NegInf \<Rightarrow> - 1
      | Fin q \<Rightarrow> if q < 0 then - 1 else if 0 < q then 1 else 0)"

text \<open>The operator \<^verbatim>\<open>*\<close> on two numbers (ECMAScript \<^verbatim>\<open>Number::multiply\<close>).\<close>

definition js_mul :: "jsnum \<Rightarrow> jsnum \<Rightarrow> jsnum" where
  "js_mul x y =
     (case (x, y) of
        (Fin a, Fin b) \<Rightarrow> round_double (a * b)
      | _ \<Rightarrow> if x = NaN \<or> y = NaN \<or> js_sign x * js_sign y = 0 then NaN
             else if 0 < js_sign x * js_sign y then PosInf else NegInf)"

text \<open>\<^verbatim>\<open>ToBoolean\<close>: what \<^verbatim>\<open>||\<close> and \<^verbatim>\<open>!\<close> look at.\<close>

definition truthy :: "jsval \<Rightarrow> bool" where
  "truthy v =
     (case v of
        JUndefined \<Rightarrow> False
      | JNull \<Rightarrow> False
      | JString s \<Rightarrow> s \<noteq> []
      | JNumber n \<Rightarrow> n \<noteq> NaN \<and> n \<noteq> Fin 0
      | JFile \<Rightarrow> True)"

definition js_or :: "jsval \<Rightarrow> jsval \<Rightarrow> jsval" where
  "js_or a b = (if truthy a then a else b)"

subsection \<open>\<^verbatim>\<open>Number(value)\<close>\<close>

text \<open>
  \<^verbatim>\<open>StringToNumber\<close>: white space is trimmed, the empty string is \<open>0\<close>, then either an
  unsigned \<^verbatim>\<open>0x\<close>, \<^verbatim>\<open>0o\<close> or \<^verbatim>\<open>0b\<close> integer or an optionally signed decimal
  literal (\<^verbatim>\<open>Infinity\<close>, or digits with an optional fraction and exponent), rounded to a
  double; everything else is \<open>NaN\<close>. A character here is a code unit below 256, so of the
  white space of ECMAScript the ASCII characters (tab, LF, VT, FF, CR, space) and the
  no-break space U+00A0 are recognised.
\<close>

definition is_ws :: "char \<Rightarrow> bool" where
  "is_ws c = (c \<in> set [CHR 0x09, CHR 0x0A, CHR 0x0B, CHR 0x0C, CHR 0x0D, CHR 0x20, CHR 0xA0])"

definition trim :: "string \<Rightarrow> string" where
  "trim s = rev (dropWhile is_ws (rev (dropWhile is_ws s)))"

definition digit_val :: "char \<Rightarrow> nat option" where
  "digit_val c =
     (let n = (of_char c :: nat)
      in if 48 \<le> n \<and> n \<le> 57 then Some (n - 48)
         else if 97 \<le> n \<and> n \<le> 102 then Some (n - 87)
         else if 65 \<le> n \<and> n \<le> 70 then Some (n - 55)
         else None)"

fun digits_val :: "nat \<Rightarrow> string \<Rightarrow> nat \<Rightarrow> nat option" where
  "digits_val r [] acc = Some acc"
| "digits_val r (c # cs) acc =
     (case digit_val c of
        None \<Rightarrow> None
      | Some d \<Rightarrow> if d < r then digits_val r cs (acc * r + d) else None)"

definition parse_digits :: "nat \<Rightarrow> string \<Rightarrow> nat option" where
  "parse_digits r s = (if s = [] then None else digits_val r s 0)"

definition parse_exponent :: "string \<Rightarrow> int option" where
  "parse_exponent s =
     (case s of
        [] \<Rightarrow> None
      | c # cs \<Rightarrow>
          if c = CHR ''-'' then map_option (\<lambda>n. - int n) (parse_digits 10 cs)
          else if c = CHR ''+'' then map_option int (parse_digits 10 cs)
          else map_option int (parse_digits 10 s))"

text \<open>
  An unsigned decimal literal without \<^verbatim>\<open>Infinity\<close>: the part before the first
  \<^verbatim>\<open>e\<close> or \<^verbatim>\<open>E\<close> is the mantissa, with at most one point and a digit on at least one
  side of it; its exact value is returned.
\<close>

definition parse_decimal :: "string \<Rightarrow> rat option" where
  "parse_decimal s =
     (let is_e = (\<lambda>c. c = CHR ''e'' \<or> c = CHR ''E'');
          ms = takeWhile (\<lambda>c. \<not> is_e c) s;
          es = dropWhile (\<lambda>c. \<not> is_e c) s;
          ip = takeWhile (\<lambda>c. c \<noteq> CHR ''.'') ms;
          ds = dropWhile (\<lambda>c. c \<noteq> CHR ''.'') ms;
          fp = (if ds = [] then [] else tl ds)
      in if ip = [] \<and> fp = [] then None
         else
           (case (digits_val 10 (ip @ fp) 0, if es = [] then Some 0 else parse_exponent (tl es)) of
              (Some m, Some x) \<Rightarrow> Some (of_nat m * 10 powi (x - int (length fp)))
            | _ \<Rightarrow> None))"

definition StringToNumber :: "string \<Rightarrow> jsnum" where
  "StringToNumber str =
     (let s = trim str;
          radix = (\<lambda>r. case parse_digits r (drop 2 s) of
                          None \<Rightarrow> NaN | Some n \<Rightarrow> round_double (of_nat n));
          signed = (\<lambda>neg t.
             if t = ''Infinity'' then (if neg then NegInf else PosInf)
             else case parse_decimal t of
                    None \<Rightarrow> NaN
                  | Some q \<Rightarrow> round_double (if neg then - q else q))
      in if s = [] then Fin 0
         else if take 2 s = ''0x'' \<or> take 2 s = ''0X'' then radix 16
         else if take 2 s = ''0o'' \<or> take 2 s = ''0O'' then radix 8
         else if take 2 s = ''0b'' \<or> take 2 s = ''0B'' then radix 2
         else if hd s = CHR ''-'' then signed True (tl s)
         else if hd s = CHR ''+'' then signed False (tl s)
         else signed False s)"

text \<open>
  \<^verbatim>\<open>ToNumber\<close>, which \<^verbatim>\<open>Number(v)\<close> and the operands of \<^verbatim>\<open>*\<close> go through. A
  \<^verbatim>\<open>File\<close> is an object whose primitive is the string \<^verbatim>\<open>[object File]\<close>.
\<close>

definition ToNumber :: "jsval \<Rightarrow> jsnum" where
  "ToNumber v =
     (case v of
        JUndefined \<Rightarrow> NaN
      | JNull \<Rightarrow> Fin 0
      | JString s \<Rightarrow> StringToNumber s
      | JNumber n \<Rightarrow> n
      | JFile \<Rightarrow> NaN)"

definition js_times :: "jsval \<Rightarrow> jsval \<Rightarrow> jsval" where
  "js_times a b = JNumber (js_mul (ToNumber a) (ToNumber b))"


section \<open>Form data and the validation schema\<close>

text \<open>
  A \<^verbatim>\<open>FormData\<close> is a list of named entries, each a string or a file;
  \<^verbatim>\<open>formData.get(name)\<close> is the first entry of that name, or \<^verbatim>\<open>null\<close>.
\<close>

datatype entry = Str string | File

type_synonym FormData = "(string \<times> entry) list"

definition formData_get :: "FormData \<Rightarrow> string \<Rightarrow> jsval" where
  "formData_get fd name =
     (case map_of fd name of
        None \<Rightarrow> JNull
      | Some (Str s) \<Rightarrow> JString s
      | Some File \<Rightarrow> JFile)"

text \<open>
  An object is a list of properties; reading a property that is not there gives
  \<^verbatim>\<open>undefined\<close>.
\<close>

type_synonym jsobject = "(string \<times> jsval) list"

definition get_prop :: "jsobject \<Rightarrow> string \<Rightarrow> jsval" where
  "get_prop obj k = (case map_of obj k of None \<Rightarrow> JUndefined | Some v \<Rightarrow> v)"

text \<open>
  The three kinds of Zod schema the actions use, and an object schema as its shape, the
  keys in the order they are written. \<open>parse_field\<close> is what Zod 3 does on one value:
  \<^verbatim>\<open>z.string()\<close> wants a string; \<^verbatim>\<open>z.coerce.number()\<close> applies \<^verbatim>\<open>Number\<close> and
  refuses only \<open>NaN\<close>; \<^verbatim>\<open>z.enum\<close> wants one of its options.
\<close>

datatype zschema = ZString | ZCoerceNumber | ZEnum "string list"

type_synonym zobject = "(string \<times> zschema) list"

datatype issue_code = invalid_type | invalid_enum_value

record issue =
  path :: string
  code :: issue_code

datatype error = ZodError "issue list" | SqlError

fun parse_field :: "zschema \<Rightarrow> jsval \<Rightarrow> issue_code + jsval" where
  "parse_field ZString v =
     (case v of JString s \<Rightarrow> Inr (JString s) | _ \<Rightarrow> Inl invalid_type)"
| "parse_field ZCoerceNumber v =
     (case ToNumber v of NaN \<Rightarrow> Inl invalid_type | n \<Rightarrow> Inr (JNumber n))"
| "parse_field (ZEnum opts) v =
     (case v of
        JString s \<Rightarrow> if s \<in> set opts then Inr (JString s) else Inl invalid_enum_value
      | _ \<Rightarrow> Inl invalid_type)"

text \<open>
  An object schema parses every key of its shape, collects the issues of all of them
  and keeps only the keys of the shape in its output.
\<close>

fun parse_fields :: "zobject \<Rightarrow> jsobject \<Rightarrow> issue list \<times> jsobject" where
  "parse_fields [] inp = ([], [])"
| "parse_fields ((k, sch) # rest) inp =
     (case parse_fields rest inp of
        (iss, out) \<Rightarrow>
          (case parse_field sch (get_prop inp k) of
             Inl c \<Rightarrow> (\<lparr>path = k, code = c\<rparr> # iss, out)
           | Inr v \<Rightarrow> (iss, (k, v) # out)))"

text \<open>\<^verbatim>\<open>schema.parse(data)\<close> returns the output or throws a \<^verbatim>\<open>ZodError\<close>.\<close>

definition parse :: "zobject \<Rightarrow> jsobject \<Rightarrow> error + jsobject" where
  "parse shape inp =
     (case parse_fields shape inp of
        ([], out) \<Rightarrow> Inr out
      | (i # iss, out) \<Rightarrow> Inl (ZodError (i # iss)))"

definition omit :: "string list \<Rightarrow> zobject \<Rightarrow> zobject" where
  "omit ks shape = filter (\<lambda>(k, sch). k \<notin> set ks) shape"

definition FormSchema :: zobject where
  "FormSchema =
     [(''id'', ZString),
      (''customerId'', ZString),
      (''amount'', ZCoerceNumber),
      (''status'', ZEnum [''pending'', ''paid'']),
      (''date'', ZString)]"

definition CreateInvoice :: zobject where
  "CreateInvoice = omit [''id'', ''date''] FormSchema"

definition UpdateInvoice :: zobject where
  "UpdateInvoice = omit [''id'', ''date''] FormSchema"

text \<open>The object literal both actions hand to \<^verbatim>\<open>parse\<close>.\<close>

definition rawFormData :: "FormData \<Rightarrow> jsobject" where
  "rawFormData formData =
     [(''customerId'', formData_get formData ''customerId''),
      (''amount'', formData_get formData ''amount''),
      (''status'', formData_get formData ''status'')]"

section \<open>The clock\<close>

text \<open>
  \<^verbatim>\<open>new Date()\<close> reads the server's clock. The clock is given by its UTC calendar
  fields, which is what \<^verbatim>\<open>toISOString\<close> prints: \<^verbatim>\<open>YYYY-MM-DDTHH:mm:ss.sssZ\<close>, and a
  signed year of six digits outside the years 0 to 9999.
\<close>

record date_time =
  year :: int
  month :: nat
  day :: nat
  hours :: nat
  minutes :: nat
  seconds :: nat
  milliseconds :: nat

fun dec :: "nat \<Rightarrow> string" where
  "dec n = (if n < 10 then [''0123456789'' ! n]
            else dec (n div 10) @ [''0123456789'' ! (n mod 10)])"

declare dec.simps [simp del]

definition pad :: "nat \<Rightarrow> string \<Rightarrow> string" where
  "pad w s = replicate (w - length s) (CHR ''0'') @ s"

definition iso_year :: "int \<Rightarrow> string" where
  "iso_year y =
     (if 0 \<le> y \<and> y \<le> 9999 then pad 4 (dec (nat y))
      else (if y < 0 then ''-'' else ''+'') @ pad 6 (dec (nat \<bar>y\<bar>)))"

definition iso_date :: "date_time \<Rightarrow> string" where
  "iso_date d = iso_year (year d) @ ''-'' @ pad 2 (dec (month d)) @ ''-'' @ pad 2 (dec (day d))"

definition iso_time :: "date_time \<Rightarrow> string" where
  "iso_time d =
     pad 2 (dec (hours d)) @ '':'' @ pad 2 (dec (minutes d)) @ '':'' @ pad 2 (dec (seconds d))
     @ ''.'' @ pad 3 (dec (milliseconds d)) @ ''Z''"

definition toISOString :: "date_time \<Rightarrow> string" where
  "toISOString d = iso_date d @ ''T'' @ iso_time d"

text \<open>
  \<^verbatim>\<open>str.split(sep)\<close> for a separator of one character, and \<^verbatim>\<open>array[i]\<close>, which is
  \<^verbatim>\<open>undefined\<close> past the end.
\<close>

fun split :: "char \<Rightarrow> string \<Rightarrow> string list" where
  "split sep [] = [[]]"
| "split sep (c # cs) =
     (if c = sep then [] # split sep cs
      else (case split sep cs of
              [] \<Rightarrow> [[c]]
            | w # ws \<Rightarrow> (c # w) # ws))"

definition index :: "string list \<Rightarrow> nat \<Rightarrow> jsval" where
  "index xs i = (if i < length xs then JString (xs ! i) else JUndefined)"

section \<open>Storage and the state of the application\<close>

text \<open>
  A row of \<^verbatim>\<open>invoices\<close>. The identifier is made by the database; the other columns hold
  the JavaScript values the statements are given as parameters, the amount column only
  whole numbers (see \<open>whole_number\<close> below).
\<close>

record invoice =
  invoice_id :: string
  customer_id :: jsval
  amount :: jsval
  status :: jsval
  date :: jsval

record customer =
  cust_id :: string
  name :: string
  email :: string
  image_url :: string

text \<open>
  What an action can change: the two tables, what \<^verbatim>\<open>console.error\<close> has printed and
  the paths \<^verbatim>\<open>revalidatePath\<close> has been called with.
\<close>

record state =
  invoices :: "invoice list"
  customers :: "customer list"
  console :: "error list"
  revalidated :: "string list"

text \<open>
  What one call of an action reads from outside: the clock, the identifier the database
  gives an inserted row, and whether the database fails on the statement (a lost
  connection).
\<close>

record env =
  now :: date_time
  generated_id :: string
  sql_fails :: bool

text \<open>Modelled from the spec: the amount column of \<^verbatim>\<open>invoices\<close>, whose declaration is not
  in the sources. The amount is stored as integer minor units, an integer count of cents:
  the column holds whole numbers only, and the storage refuses a statement whose amount
  is anything else (a fraction, an infinity).
\<close>

definition whole_number :: "jsval \<Rightarrow> bool" where
  "whole_number v = (case v of JNumber (Fin q) \<Rightarrow> of_int \<lfloor>q\<rfloor> = q | _ \<Rightarrow> False)"

text \<open>
  The three statements. An insert or update is refused when the database fails or when
  the amount does not fit its column; the error is what the \<^verbatim>\<open>await\<close> throws.
\<close>

definition sql_insert :: "env \<Rightarrow> state \<Rightarrow> jsval \<Rightarrow> jsval \<Rightarrow> jsval \<Rightarrow> jsval \<Rightarrow> error + state" where
  "sql_insert e st customerId amountInCents stat dat =
     (if sql_fails e then Inl SqlError
      else if \<not> whole_number amountInCents then Inl SqlError
      else Inr (st\<lparr>invoices := invoices st @
                  [\<lparr>invoice_id = generated_id e, customer_id = customerId,
                    amount = amountInCents, status = stat, date = dat\<rparr>]\<rparr>))"

definition sql_update :: "env \<Rightarrow> state \<Rightarrow> jsval \<Rightarrow> jsval \<Rightarrow> jsval \<Rightarrow> string \<Rightarrow> error + state" where
  "sql_update e st customerId amountInCents stat ident =
     (if sql_fails e then Inl SqlError
      else if \<not> whole_number amountInCents then Inl SqlError
      else Inr (st\<lparr>invoices :=
                  map (\<lambda>r. if invoice_id r = ident
                            then r\<lparr>customer_id := customerId, amount := amountInCents, status := stat\<rparr>
                            else r)
                      (invoices st)\<rparr>))"

definition sql_delete :: "env \<Rightarrow> state \<Rightarrow> string \<Rightarrow> error + state" where
  "sql_delete e st ident =
     (if sql_fails e then Inl SqlError
      else Inr (st\<lparr>invoices := filter (\<lambda>r. invoice_id r \<noteq> ident) (invoices st)\<rparr>))"

definition console_error :: "error \<Rightarrow> state \<Rightarrow> state" where
  "console_error err st = st\<lparr>console := console st @ [err]\<rparr>"

definition revalidatePath :: "string \<Rightarrow> state \<Rightarrow> state" where
  "revalidatePath p st = st\<lparr>revalidated := revalidated st @ [p]\<rparr>"

section \<open>The server actions\<close>

text \<open>
  How a call of an action ends: it returns, it leaves through \<^verbatim>\<open>redirect\<close> (which
  throws the framework's redirect signal), or it throws an error.
\<close>

datatype outcome = Returned | Redirect string | Threw error

text \<open>
  \<^verbatim>\<open>createInvoice\<close>, \<^verbatim>\<open>updateInvoice\<close> and \<^verbatim>\<open>deleteInvoice\<close> as the chapter on
  error handling leaves them: \<^verbatim>\<open>parse\<close> is outside \<^verbatim>\<open>try\<close>, the statement of create
  and update is inside it, the statement of delete is not in a \<^verbatim>\<open>try\<close> at all.
\<close>

definition createInvoice :: "env \<Rightarrow> state \<Rightarrow> FormData \<Rightarrow> outcome \<times> state" where
  "createInvoice e st formData =
     (case parse CreateInvoice (rawFormData formData) of
        Inl err \<Rightarrow> (Threw err, st)
      | Inr data \<Rightarrow>
          (let customerId = get_prop data ''customerId'';
               amnt = get_prop data ''amount'';
               stat = get_prop data ''status'';
               amountInCents = js_times amnt (JNumber (Fin 100));
               dat = index (split (CHR ''T'') (toISOString (now e))) 0;
               st1 = (case sql_insert e st customerId amountInCents stat dat of
                        Inl err \<Rightarrow> console_error err st
                      | Inr st' \<Rightarrow> st');
               st2 = revalidatePath ''/dashboard/invoices'' st1
           in (Redirect ''/dashboard/invoices'', st2)))"

definition updateInvoice :: "env \<Rightarrow> state \<Rightarrow> string \<Rightarrow> FormData \<Rightarrow> outcome \<times> state" where
  "updateInvoice e st ident formData =
     (case parse UpdateInvoice (rawFormData formData) of
        Inl err \<Rightarrow> (Threw err, st)
      | Inr data \<Rightarrow>
          (let customerId = get_prop data ''customerId'';
               amnt = get_prop data ''amount'';
               stat = get_prop data ''status'';
               amountInCents = js_times amnt (JNumber (Fin 100));
               st1 = (case sql_update e st customerId amountInCents stat ident of
                        Inl err \<Rightarrow> console_error err st
                      | Inr st' \<Rightarrow> st');
               st2 = revalidatePath ''/dashboard/invoices'' st1
           in (Redirect ''/dashboard/invoices'', st2)))"

definition deleteInvoice :: "env \<Rightarrow> state \<Rightarrow> string \<Rightarrow> outcome \<times> state" where
  "deleteInvoice e st ident =
     (case sql_delete e st ident of
        Inl err \<Rightarrow> (Threw err, st)
      | Inr st' \<Rightarrow> (Returned, revalidatePath ''/dashboard/invoices'' st'))"

section \<open>The invoices page\<close>

text \<open>
  \<^verbatim>\<open>/app/dashboard/invoices/page.tsx\<close>: the optional \<^verbatim>\<open>searchParams\<close> with its two
  optional strings, and the two values the page hands to the table.
\<close>

record searchParams =
  query :: "string option"
  page :: "string option"

definition opt_chain :: "searchParams option \<Rightarrow> (searchParams \<Rightarrow> string option) \<Rightarrow> jsval" where
  "opt_chain sp field =
     (case sp of
        None \<Rightarrow> JUndefined
      | Some r \<Rightarrow> (case field r of None \<Rightarrow> JUndefined | Some s \<Rightarrow> JString s))"

definition Page_query :: "searchParams option \<Rightarrow> jsval" where
  "Page_query sp = js_or (opt_chain sp query) (JString [])"

definition Page_currentPage :: "searchParams option \<Rightarrow> jsval" where
  "Page_currentPage sp = js_or (JNumber (ToNumber (opt_chain sp page))) (JNumber (Fin 1))"

section \<open>The queries\<close>

text \<open>Modelled from the spec: \<^verbatim>\<open>fetchInvoiceById\<close> of \<^verbatim>\<open>/app/lib/data.ts\<close>, which the
  edit page calls and the sources do not contain. A direct lookup by identifier: the
  invoice of that identifier, or nothing (\<^verbatim>\<open>undefined\<close>) when there is none; a failure
  of the storage is thrown.
\<close>

definition fetchInvoiceById :: "env \<Rightarrow> state \<Rightarrow> string \<Rightarrow> error + invoice option" where
  "fetchInvoiceById e st ident =
     (if sql_fails e then Inl SqlError
      else Inr (case filter (\<lambda>r. invoice_id r = ident) (invoices st) of
                  [] \<Rightarrow> None
                | r # rs \<Rightarrow> Some r))"

text \<open>Modelled from the spec: \<^verbatim>\<open>fetchCustomers\<close> of \<^verbatim>\<open>/app/lib/data.ts\<close>, read for the
  drop-down of the edit form: the customers, or a thrown failure of the storage.
\<close>

definition fetchCustomers :: "env \<Rightarrow> state \<Rightarrow> error + customer list" where
  "fetchCustomers e st = (if sql_fails e then Inl SqlError else Inr (customers st))"

text \<open>Modelled from the spec: the page size and the filter of the two list queries of
  \<^verbatim>\<open>/app/lib/data.ts\<close>, which the sources only describe. The invoices are joined with
  their customer and kept when the search term is, without regard to case, a substring
  of the name, the email, the amount, the date or the status. How the storage turns a
  column into text is not said, so it is the parameter \<open>txt\<close>.
\<close>

definition ITEMS_PER_PAGE :: nat where
  "ITEMS_PER_PAGE = 6"

definition lower_char :: "char \<Rightarrow> char" where
  "lower_char c =
     (case map_of (zip ''ABCDEFGHIJKLMNOPQRSTUVWXYZ'' ''abcdefghijklmnopqrstuvwxyz'') c of
        None \<Rightarrow> c
      | Some l \<Rightarrow> l)"

definition lower :: "string \<Rightarrow> string" where
  "lower s = map lower_char s"

definition contains_ci :: "string \<Rightarrow> string \<Rightarrow> bool" where
  "contains_ci text term = sublist (lower term) (lower text)"

definition joined :: "state \<Rightarrow> (invoice \<times> customer) list" where
  "joined st =
     concat (map (\<lambda>i. map (Pair i) (filter (\<lambda>c. JString (cust_id c) = customer_id i) (customers st)))
                 (invoices st))"

definition matches :: "(jsval \<Rightarrow> string) \<Rightarrow> string \<Rightarrow> invoice \<times> customer \<Rightarrow> bool" where
  "matches txt term row =
     (case row of
        (i, c) \<Rightarrow>
          contains_ci (name c) term \<or> contains_ci (email c) term
          \<or> contains_ci (txt (amount i)) term \<or> contains_ci (txt (date i)) term
          \<or> contains_ci (txt (status i)) term)"

definition matching :: "(jsval \<Rightarrow> string) \<Rightarrow> state \<Rightarrow> string \<Rightarrow> (invoice \<times> customer) list" where
  "matching txt st term = filter (matches txt term) (joined st)"

text \<open>Modelled from the spec: \<^verbatim>\<open>fetchFilteredInvoices\<close>. It takes a search term and a
  1-based page number and returns that page of the matching invoices, ordered by date
  descending, at most \<open>ITEMS_PER_PAGE\<close> of them. There is no page 0.
\<close>

definition fetchFilteredInvoices ::
  "(jsval \<Rightarrow> string) \<Rightarrow> state \<Rightarrow> string \<Rightarrow> nat \<Rightarrow> (invoice \<times> customer) list option" where
  "fetchFilteredInvoices txt st term currentPage =
     (if currentPage < 1 then None
      else Some (take ITEMS_PER_PAGE
                   (drop ((currentPage - 1) * ITEMS_PER_PAGE)
                      (rev (sort_key (\<lambda>row. txt (date (fst row))) (matching txt st term))))))"

text \<open>Modelled from the spec: \<^verbatim>\<open>fetchInvoicesPages\<close>, the count of total matching pages:
  the ceiling of the match count divided by the page size.
\<close>

definition fetchInvoicesPages :: "(jsval \<Rightarrow> string) \<Rightarrow> state \<Rightarrow> string \<Rightarrow> nat" where
  "fetchInvoicesPages txt st term =
     nat \<lceil>rat_of_nat (length (matching txt st term)) / rat_of_nat ITEMS_PER_PAGE\<rceil>"

section \<open>The edit page\<close>

text \<open>
  \<^verbatim>\<open>/app/dashboard/invoices/[id]/edit/page.tsx\<close> fetches the invoice and the customers
  together and calls \<^verbatim>\<open>notFound()\<close> when there is no invoice. The framework shows
  \<^verbatim>\<open>not-found.tsx\<close> for that signal and \<^verbatim>\<open>error.tsx\<close> for any other thrown error.
\<close>

datatype page_result = Form invoice "customer list" | CalledNotFound | PageThrew error

text \<open>
  The page takes what its two fetches gave, each a value or a thrown error, as
  \<^verbatim>\<open>Promise.all\<close> hands them over.
\<close>

definition edit_Page :: "(string \<Rightarrow> error + invoice option) \<Rightarrow> error + customer list \<Rightarrow> string \<Rightarrow> page_result" where
  "edit_Page fetchInvoice fetchedCustomers ident =
     (case fetchInvoice ident of
        Inl err \<Rightarrow> PageThrew err
      | Inr found \<Rightarrow>
          (case fetchedCustomers of
             Inl err \<Rightarrow> PageThrew err
           | Inr cs \<Rightarrow>
               (case found of
                  None \<Rightarrow> CalledNotFound
                | Some i \<Rightarrow> Form i cs)))"

record view =
  heading :: string
  message :: string
  button :: string

definition NotFound :: view where
  "NotFound =
     \<lparr>heading = ''404 Not Found'',
      message = ''Could not find the requested invoice.'',
      button = ''Go Back''\<rparr>"

definition Error :: view where
  "Error = \<lparr>heading = ''Something went wrong!'', message = [], button = ''Try again''\<rparr>"

datatype presentation = EditForm invoice "customer list" | Shown view

definition present :: "page_result \<Rightarrow> presentation" where
  "present r =
     (case r of
        Form i cs \<Rightarrow> EditForm i cs
      | CalledNotFound \<Rightarrow> Shown NotFound
      | PageThrew err \<Rightarrow> Shown Error)"

section \<open>Properties of the number model\<close>

text \<open>
  A value \<open>m * 2 powi e\<close> with a significand of at most 53 bits and an exponent a double can
  have is a double, and rounding leaves it alone. So whole numbers below \<open>2 ^ 53\<close> are
  exact, and so is their product with 100 below \<open>2 ^ 46\<close>.
\<close>

lemma round_half_even_of_int: "round_half_even (of_int n) = n"
  by (simp add: round_half_even_def)

lemma ilog2_bounds:
  assumes "0 < a"
  shows "2 powi (ilog2 a) \<le> a" and "a < 2 powi (ilog2 a + 1)"
proof -
  obtain n d where nd: "quotient_of a = (n, d)" by (cases "quotient_of a")
  then have d: "0 < d" and a: "a = of_int n / of_int d"
    using quotient_of_denom_pos quotient_of_div by auto
  with assms have n: "0 < n"
    by (simp add: zero_less_divide_iff)
  define k where "k = bitlen n - bitlen d"
  have pw: "(2::rat) powi j = of_int (2 ^ nat j)" if "0 \<le> j" for j
    using that by (simp add: power_int_def)
  have pn: "1 \<le> bitlen n" using n by (simp add: bitlen_alt_def)
  have pd: "1 \<le> bitlen d" using d by (simp add: bitlen_alt_def)
  have n1: "(2::rat) powi (bitlen n - 1) \<le> of_int n"
    using bitlen_bounds[OF n] pn by (simp only: pw of_int_le_iff)
  have n2: "of_int n < (2::rat) powi (bitlen n)"
    using bitlen_bounds[OF n] pn by (simp only: pw of_int_less_iff)
  have d1: "(2::rat) powi (bitlen d - 1) \<le> of_int d"
    using bitlen_bounds[OF d] pd by (simp only: pw of_int_le_iff)
  have d2: "of_int d < (2::rat) powi (bitlen d)"
    using bitlen_bounds[OF d] pd by (simp only: pw of_int_less_iff)
  have dpos: "(0::rat) < of_int d" using d by simp
  have lo: "(2::rat) powi (k - 1) < a"
  proof -
    have "(2::rat) powi (k - 1) * of_int d < 2 powi (k - 1) * 2 powi (bitlen d)"
      using d2 by (simp add: mult_strict_left_mono)
    also have "\<dots> = 2 powi (bitlen n - 1)"
      by (simp add: k_def power_int_add[symmetric])
    also have "\<dots> \<le> of_int n" by (rule n1)
    finally show ?thesis using dpos by (simp add: a pos_less_divide_eq)
  qed
  have hi: "a < (2::rat) powi (k + 1)"
  proof -
    have "of_int n < (2::rat) powi (bitlen n)" by (rule n2)
    also have "\<dots> = 2 powi (k + 1) * 2 powi (bitlen d - 1)"
      by (simp add: k_def power_int_add[symmetric])
    also have "\<dots> \<le> 2 powi (k + 1) * of_int d"
      using d1 by (simp add: mult_left_mono)
    finally show ?thesis using dpos by (simp add: a pos_divide_less_eq)
  qed
  have il: "ilog2 a = (if 2 powi k \<le> a then k else k - 1)"
    by (simp add: ilog2_def nd k_def Let_def)
  show "2 powi (ilog2 a) \<le> a"
    using lo by (simp add: il)
  show "a < 2 powi (ilog2 a + 1)"
    using hi by (simp add: il not_le)
qed

lemma round_double_exact:
  assumes m: "m \<noteq> 0" "\<bar>m\<bar> < 2 ^ 53" and e: "- 1074 \<le> e"
    and big: "\<bar>of_int m * 2 powi e\<bar> < (2::rat) ^ 1024"
  shows "round_double (of_int m * 2 powi e) = Fin (of_int m * 2 powi e)"
proof -
  define q :: rat where "q = of_int m * 2 powi e"
  define a where "a = \<bar>q\<bar>"
  have a_eq: "a = of_int \<bar>m\<bar> * 2 powi e"
    by (simp add: a_def q_def abs_mult)
  have apos: "0 < a" using m(1) by (simp add: a_eq)
  define L where "L = ilog2 a"
  have L1: "2 powi L \<le> a" and L2: "a < 2 powi (L + 1)"
    using ilog2_bounds[OF apos] by (simp_all add: L_def)
  have "(of_int \<bar>m\<bar> :: rat) < of_int (2 ^ 53)"
    using m(2) by (simp only: of_int_less_iff)
  then have "a < 2 powi 53 * 2 powi e"
    by (simp add: a_eq)
  then have "a < 2 powi (53 + e)"
    by (simp add: power_int_add)
  with L1 have lt: "(2::rat) powi L < 2 powi (53 + e)" by simp
  have Le: "L - 52 \<le> e"
  proof (rule ccontr)
    assume "\<not> L - 52 \<le> e"
    then have "53 + e \<le> L" by simp
    then have "(2::rat) powi (53 + e) \<le> 2 powi L"
      by (intro power_int_increasing) simp_all
    with lt show False by simp
  qed
  define ex where "ex = max (L - 52) (- 1074)"
  have exe: "ex \<le> e" using Le e by (simp add: ex_def)
  have sc: "a / 2 powi ex = of_int (\<bar>m\<bar> * 2 ^ nat (e - ex))"
  proof -
    have "a / 2 powi ex = of_int \<bar>m\<bar> * 2 powi (e - ex)"
      by (simp add: a_eq power_int_diff)
    also have "(2::rat) powi (e - ex) = 2 ^ nat (e - ex)"
      using exe by (simp add: power_int_def)
    finally show ?thesis by simp
  qed
  have v: "of_int (round_half_even (a / 2 powi ex)) * 2 powi ex = a"
  proof -
    have "of_int (round_half_even (a / 2 powi ex)) * 2 powi ex = (a / 2 powi ex) * 2 powi ex"
      by (simp only: sc round_half_even_of_int)
    also have "\<dots> = a" by simp
    finally show ?thesis .
  qed
  have qn: "q \<noteq> 0" using apos by (simp add: a_def)
  have "round_double q = Fin q"
    using qn big v
    by (simp add: round_double_def Let_def a_def[symmetric] L_def[symmetric] ex_def[symmetric] q_def[symmetric] not_le)
       (simp add: a_def)
  then show ?thesis by (simp add: q_def)
qed

lemma round_double_of_int:
  assumes "\<bar>n\<bar> < 2 ^ 53"
  shows "round_double (of_int n) = Fin (of_int n)"
proof (cases "n = 0")
  case True
  then show ?thesis by (simp add: round_double_def)
next
  case False
  have "(of_int \<bar>n\<bar> :: rat) < of_int (2 ^ 53)"
    using assms by (simp only: of_int_less_iff)
  then have "\<bar>of_int n :: rat\<bar> < 2 ^ 1024" by simp
  then show ?thesis
    using round_double_exact[of n 0] False assms by simp
qed





lemma round_double_neg5: "round_double (- 5) = Fin (- 5)"
  using round_double_of_int[of "- 5"] by simp

lemma round_double_neg500: "round_double (- 500) = Fin (- 500)"
  using round_double_of_int[of "- 500"] by simp

lemma round_double_10: "round_double 10 = Fin 10"
  using round_double_of_int[of 10] by simp

lemma StringToNumber_neg5: "StringToNumber ''-5'' = Fin (- 5)"
  by (simp add: StringToNumber_def trim_def is_ws_def parse_decimal_def digit_val_def round_double_neg5)

lemma StringToNumber_10: "StringToNumber ''10'' = Fin 10"
  by (simp add: StringToNumber_def trim_def is_ws_def parse_decimal_def digit_val_def round_double_10)

lemma js_mul_neg5: "js_mul (Fin (- 5)) (Fin 100) = Fin (- 500)"
  by (simp add: js_mul_def round_double_neg500)

text \<open>
  A product that is not exact is rounded to a double: \<^verbatim>\<open>19.99 * 100\<close> is the double
  \<open>1998.9999999999998\<close> (the fraction below, with denominator \<open>2 ^ 42\<close>).
\<close>

lemma ilog2_unique:
  assumes "0 < a" "2 powi L \<le> a" "a < 2 powi (L + 1)"
  shows "ilog2 a = L"
proof (rule ccontr)
  assume ne: "ilog2 a \<noteq> L"
  note b = ilog2_bounds[OF assms(1)]
  show False
  proof (cases "ilog2 a < L")
    case True
    then have "ilog2 a + 1 \<le> L" by simp
    then have "(2::rat) powi (ilog2 a + 1) \<le> 2 powi L"
      by (intro power_int_increasing) simp_all
    with b(2) assms(2) show False by simp
  next
    case False
    with ne have "L + 1 \<le> ilog2 a" by simp
    then have "(2::rat) powi (L + 1) \<le> 2 powi (ilog2 a)"
      by (intro power_int_increasing) simp_all
    with b(1) assms(3) show False by simp
  qed
qed

lemma floor_rat_numeral: "\<lfloor>(numeral a :: rat) / numeral b\<rfloor> = numeral a div numeral b"
  by (metis floor_divide_of_int_eq of_int_numeral)

lemma round_double_1999: "round_double (1999 / 100) = Fin (5626684784446013 / 281474976710656)"
proof -
  have l: "ilog2 (1999 / 100) = 4"
    by (rule ilog2_unique) simp_all
  have r: "round_half_even (140667119611150336 / 25) = 5626684784446013"
    by (simp add: round_half_even_def power_int_minus Let_def floor_rat_numeral)
  show ?thesis
    by (simp add: round_double_def l r power_int_minus Let_def)
qed

lemma StringToNumber_1999: "StringToNumber ''19.99'' = Fin (5626684784446013 / 281474976710656)"
  by (simp add: StringToNumber_def trim_def is_ws_def parse_decimal_def digit_val_def
      power_int_minus round_double_1999)

lemma js_mul_1999:
  "js_mul (Fin (5626684784446013 / 281474976710656)) (Fin 100) = Fin (8791694975696895 / 4398046511104)"
proof -
  let ?q = "140667119611150325 / 70368744177664 :: rat"
  have l: "ilog2 ?q = 10"
    by (rule ilog2_unique) simp_all
  have r: "round_half_even (140667119611150325 / 16) = 8791694975696895"
    by (simp add: round_half_even_def power_int_minus Let_def floor_rat_numeral)
  have "round_double ?q = Fin (8791694975696895 / 4398046511104)"
    by (simp add: round_double_def l r power_int_minus Let_def)
  then show ?thesis
    by (simp add: js_mul_def)
qed

lemma amountInCents_1999:
  "js_times (JNumber (StringToNumber ''19.99'')) (JNumber (Fin 100))
     = JNumber (Fin (8791694975696895 / 4398046511104))"
  by (simp add: js_times_def ToNumber_def StringToNumber_1999 js_mul_1999)

subsection \<open>Decimal numerals read back as the number they print\<close>

lemma dec_not_Nil: "dec n \<noteq> []"
  by (subst dec.simps) simp

lemma digit_char_mem: "n < 10 \<Longrightarrow> ''0123456789'' ! n \<in> set ''0123456789''"
  by (rule nth_mem) simp

lemma set_dec: "set (dec n) \<subseteq> set ''0123456789''"
proof (induction n rule: dec.induct)
  case (1 n)
  show ?case
  proof (cases "n < 10")
    case True
    then show ?thesis using digit_char_mem[of n] by (subst dec.simps) simp
  next
    case False
    have "n mod 10 < 10" by simp
    then have "''0123456789'' ! (n mod 10) \<in> set ''0123456789''" by (rule digit_char_mem)
    with False 1 show ?thesis by (subst dec.simps) simp
  qed
qed

lemma digit_val_digit: "n < 10 \<Longrightarrow> digit_val (''0123456789'' ! n) = Some n"
proof -
  assume "n < 10"
  then have "n \<in> {0, 1, 2, 3, 4, 5, 6, 7, 8, 9}" by auto
  then show ?thesis
    by (auto simp add: digit_val_def)
qed

lemma digits_val_append:
  "digits_val r (xs @ ys) acc =
     (case digits_val r xs acc of None \<Rightarrow> None | Some a \<Rightarrow> digits_val r ys a)"
  by (induction xs arbitrary: acc) (auto split: option.splits)

lemma digits_val_dec: "digits_val 10 (dec n) 0 = Some n"
proof (induction n rule: dec.induct)
  case (1 n)
  show ?case
  proof (cases "n < 10")
    case True
    then show ?thesis by (subst dec.simps) (simp add: digit_val_digit)
  next
    case False
    have m: "digit_val (''0123456789'' ! (n mod 10)) = Some (n mod 10)"
      by (rule digit_val_digit) simp
    from False 1 have "digits_val 10 (dec (n div 10)) 0 = Some (n div 10)" by simp
    with False m show ?thesis
      by (subst dec.simps) (simp add: digits_val_append)
  qed
qed

lemma digits_only:
  assumes "set s \<subseteq> set ''0123456789''"
  shows "\<forall>c \<in> set s. \<not> is_ws c \<and> c \<noteq> CHR ''e'' \<and> c \<noteq> CHR ''E'' \<and> c \<noteq> CHR ''.''
           \<and> c \<noteq> CHR ''x'' \<and> c \<noteq> CHR ''X'' \<and> c \<noteq> CHR ''o'' \<and> c \<noteq> CHR ''O''
           \<and> c \<noteq> CHR ''b'' \<and> c \<noteq> CHR ''B'' \<and> c \<noteq> CHR ''-'' \<and> c \<noteq> CHR ''+'' \<and> c \<noteq> CHR ''I''"
  using assms by (auto simp add: is_ws_def)

lemma trim_no_ws:
  assumes "\<forall>c \<in> set s. \<not> is_ws c"
  shows "trim s = s"
proof -
  have "dropWhile is_ws s = s"
    using assms by (cases s) auto
  moreover have "dropWhile is_ws (rev s) = rev s"
    using assms by (cases "rev s") (auto simp add: rev_eq_Cons_iff)
  ultimately show ?thesis by (simp add: trim_def)
qed

lemma take2_neq:
  assumes "c \<notin> set s"
  shows "take 2 s \<noteq> [a, c]"
proof
  assume "take 2 s = [a, c]"
  then have "c \<in> set (take 2 s)" by simp
  then have "c \<in> set s" by (rule in_set_takeD)
  with assms show False by simp
qed

lemma parse_decimal_digits:
  assumes "set s \<subseteq> set ''0123456789''" and "s \<noteq> []" and "digits_val 10 s 0 = Some n"
  shows "parse_decimal s = Some (of_nat n)"
proof -
  note d = digits_only[OF assms(1)]
  have 1: "takeWhile (\<lambda>c. c \<noteq> CHR ''e'' \<and> c \<noteq> CHR ''E'') s = s"
    using d by (simp add: takeWhile_eq_all_conv)
  have 2: "dropWhile (\<lambda>c. c \<noteq> CHR ''e'' \<and> c \<noteq> CHR ''E'') s = []"
    using d by simp
  have 3: "takeWhile (\<lambda>c. c \<noteq> CHR ''.'') s = s"
    using d by (simp add: takeWhile_eq_all_conv)
  have 4: "\<forall>x\<in>set s. x \<noteq> CHR ''.''"
    using d by simp
  show ?thesis
    using assms(2,3) 4 by (simp add: parse_decimal_def Let_def 1 2 3)
qed

lemma StringToNumber_digits:
  assumes "set s \<subseteq> set ''0123456789''" and "s \<noteq> []" and "digits_val 10 s 0 = Some n"
  shows "StringToNumber s = round_double (of_nat n)"
proof -
  note d = digits_only[OF assms(1)]
  have t: "trim s = s" using d by (simp add: trim_no_ws)
  have nx: "CHR ''x'' \<notin> set s" "CHR ''X'' \<notin> set s" "CHR ''o'' \<notin> set s" "CHR ''O'' \<notin> set s"
    "CHR ''b'' \<notin> set s" "CHR ''B'' \<notin> set s" "CHR ''I'' \<notin> set s"
    using d by blast+
  have x: "take 2 s \<noteq> ''0x''" "take 2 s \<noteq> ''0X''" "take 2 s \<noteq> ''0o''" "take 2 s \<noteq> ''0O''"
    "take 2 s \<noteq> ''0b''" "take 2 s \<noteq> ''0B''"
    by (rule take2_neq, rule nx)+
  have hs: "hd s \<in> set s" using assms(2) by simp
  have h: "hd s \<noteq> CHR ''-''" "hd s \<noteq> CHR ''+''"
    using d hs by blast+
  have i: "s \<noteq> ''Infinity''"
  proof
    assume "s = ''Infinity''"
    then have "CHR ''I'' \<in> set s" by simp
    with nx(7) show False by simp
  qed
  show ?thesis
    using assms(2) by (simp add: StringToNumber_def Let_def t x h i parse_decimal_digits[OF assms])
qed

lemma StringToNumber_dec:
  assumes "n < 2 ^ 53"
  shows "StringToNumber (dec n) = Fin (of_nat n)"
proof -
  from assms have "int n < int (2 ^ 53)" by (simp only: of_nat_less_iff)
  then have "\<bar>int n\<bar> < 2 ^ 53" by simp
  from round_double_of_int[OF this] have "round_double (of_nat n) = Fin (of_nat n)" by simp
  then show ?thesis
    by (simp add: StringToNumber_digits[OF set_dec dec_not_Nil digits_val_dec])
qed

lemma ToNumber_JString_dec:
  "n < 2 ^ 53 \<Longrightarrow> ToNumber (JString (dec n)) = Fin (of_nat n)"
  by (simp add: ToNumber_def StringToNumber_dec)

section \<open>Properties of the schema\<close>

lemma CreateInvoice_shape:
  "CreateInvoice = [(''customerId'', ZString), (''amount'', ZCoerceNumber), (''status'', ZEnum [''pending'', ''paid''])]"
  by (simp add: CreateInvoice_def omit_def FormSchema_def)

lemma UpdateInvoice_shape: "UpdateInvoice = CreateInvoice"
  by (simp add: CreateInvoice_def UpdateInvoice_def)

lemma get_prop_rawFormData:
  "get_prop (rawFormData fd) ''customerId'' = formData_get fd ''customerId''"
  "get_prop (rawFormData fd) ''amount'' = formData_get fd ''amount''"
  "get_prop (rawFormData fd) ''status'' = formData_get fd ''status''"
  by (simp_all add: get_prop_def rawFormData_def)

lemma parse_three:
  "parse [(''customerId'', ZString), (''amount'', ZCoerceNumber), (''status'', ZEnum [''pending'', ''paid''])] inp =
     (case (get_prop inp ''customerId'', ToNumber (get_prop inp ''amount''), get_prop inp ''status'') of
        (c, n, s) \<Rightarrow>
          (let ic = (case c of JString x \<Rightarrow> [] | _ \<Rightarrow> [\<lparr>path = ''customerId'', code = invalid_type\<rparr>]);
               ia = (if n = NaN then [\<lparr>path = ''amount'', code = invalid_type\<rparr>] else []);
               is = (case s of
                       JString x \<Rightarrow> if x = ''pending'' \<or> x = ''paid'' then []
                                     else [\<lparr>path = ''status'', code = invalid_enum_value\<rparr>]
                     | _ \<Rightarrow> [\<lparr>path = ''status'', code = invalid_type\<rparr>])
           in if ic @ ia @ is = []
              then Inr [(''customerId'', c), (''amount'', JNumber n), (''status'', s)]
              else Inl (ZodError (ic @ ia @ is))))"
  by (cases "get_prop inp ''customerId''"; cases "ToNumber (get_prop inp ''amount'')";
      cases "get_prop inp ''status''") (simp_all add: parse_def)

lemma parse_CreateInvoice_Inr:
  assumes "parse CreateInvoice (rawFormData fd) = Inr data"
  shows "(\<exists>c. formData_get fd ''customerId'' = JString c)"
    and "ToNumber (formData_get fd ''amount'') \<noteq> NaN"
    and "formData_get fd ''status'' = JString ''pending'' \<or> formData_get fd ''status'' = JString ''paid''"
    and "data = [(''customerId'', formData_get fd ''customerId''),
                 (''amount'', JNumber (ToNumber (formData_get fd ''amount''))),
                 (''status'', formData_get fd ''status'')]"
proof -
  let ?c = "formData_get fd ''customerId''" and ?s = "formData_get fd ''status''"
  have *: "parse CreateInvoice (rawFormData fd) = Inr data" by (rule assms)
  show "\<exists>c. ?c = JString c"
    using * by (cases ?c) (simp_all add: CreateInvoice_shape parse_three get_prop_rawFormData Let_def split: if_splits)
  show "ToNumber (formData_get fd ''amount'') \<noteq> NaN"
    using * by (auto simp add: CreateInvoice_shape parse_three get_prop_rawFormData Let_def split: if_splits)
  show "?s = JString ''pending'' \<or> ?s = JString ''paid''"
    using * by (cases ?s) (simp_all add: CreateInvoice_shape parse_three get_prop_rawFormData Let_def split: if_splits)
  show "data = [(''customerId'', formData_get fd ''customerId''),
                 (''amount'', JNumber (ToNumber (formData_get fd ''amount''))),
                 (''status'', formData_get fd ''status'')]"
    using * by (simp add: CreateInvoice_shape parse_three get_prop_rawFormData Let_def split: if_splits)
qed

lemma parse_CreateInvoice_Inl2:
  assumes "parse CreateInvoice (rawFormData fd) = Inl err"
  shows "\<exists>iss. err = ZodError iss \<and> iss \<noteq> [] \<and> path ` set iss \<subseteq> {''customerId'', ''amount'', ''status''}"
proof -
  let ?c = "formData_get fd ''customerId''" and ?s = "formData_get fd ''status''"
  show ?thesis
    using assms
    by (cases ?c; cases ?s)
       (auto simp add: CreateInvoice_shape parse_three get_prop_rawFormData Let_def split: if_splits)
qed

lemma parse_CreateInvoice_accepted:
  assumes "\<exists>c. formData_get fd ''customerId'' = JString c"
    and "ToNumber (formData_get fd ''amount'') \<noteq> NaN"
    and "formData_get fd ''status'' = JString ''pending'' \<or> formData_get fd ''status'' = JString ''paid''"
  shows "parse CreateInvoice (rawFormData fd) =
           Inr [(''customerId'', formData_get fd ''customerId''),
                (''amount'', JNumber (ToNumber (formData_get fd ''amount''))),
                (''status'', formData_get fd ''status'')]"
  using assms
  by (auto simp add: CreateInvoice_shape parse_three get_prop_rawFormData Let_def)

lemma parse_sample_form:
  "parse CreateInvoice (rawFormData [(''customerId'', Str ''c1''), (''amount'', Str ''-5''), (''status'', Str ''paid'')])
     = Inr [(''customerId'', JString ''c1''), (''amount'', JNumber (Fin (- 5))), (''status'', JString ''paid'')]"
  by (simp add: CreateInvoice_shape parse_three get_prop_rawFormData formData_get_def ToNumber_def StringToNumber_neg5)


lemma parse_bad_status:
  "parse CreateInvoice (rawFormData [(''customerId'', Str ''c1''), (''amount'', Str ''10''), (''status'', Str ''draft'')])
     = Inl (ZodError [\<lparr>path = ''status'', code = invalid_enum_value\<rparr>])"
  by (simp add: CreateInvoice_shape parse_three get_prop_rawFormData formData_get_def ToNumber_def StringToNumber_10)

section \<open>Properties of the clock\<close>

lemma split_not_Nil: "split sep s \<noteq> []"
  by (induction s) (auto split: list.splits)

lemma split_first:
  "sep \<notin> set a \<Longrightarrow> split sep (a @ sep # b) = a # split sep b"
proof (induction a)
  case Nil
  then show ?case by simp
next
  case (Cons c a)
  then show ?case by auto
qed

lemma set_pad: "set (pad w s) \<subseteq> insert (CHR ''0'') (set s)"
  by (auto simp add: pad_def)

lemma T_notin_pad_dec: "CHR ''T'' \<notin> set (pad w (dec n))"
  using set_pad[of w "dec n"] set_dec[of n] by auto

lemma T_notin_iso_date: "CHR ''T'' \<notin> set (iso_date d)"
  by (simp add: iso_date_def iso_year_def T_notin_pad_dec)

lemma date_of_now: "index (split (CHR ''T'') (toISOString d)) 0 = JString (iso_date d)"
  by (simp add: toISOString_def split_first[OF T_notin_iso_date] index_def)

lemma length_dec_le: "n < 10 ^ k \<Longrightarrow> 0 < k \<Longrightarrow> length (dec n) \<le> k"
proof (induction n arbitrary: k rule: dec.induct)
  case (1 n)
  show ?case
  proof (cases "n < 10")
    case True
    then show ?thesis using 1(3) by (subst dec.simps) simp
  next
    case False
    have k2: "1 < k"
    proof (rule ccontr)
      assume "\<not> 1 < k"
      with 1(3) have "k = 1" by simp
      with 1(2) False show False by simp
    qed
    then obtain j where j: "k = Suc j" "0 < j" by (cases k) auto
    have "n div 10 < 10 ^ j" using 1(2) j by (simp add: less_mult_imp_div_less mult.commute)
    from 1(1)[OF False this j(2)] have "length (dec (n div 10)) \<le> j" .
    with False j show ?thesis by (subst dec.simps) simp
  qed
qed

lemma length_pad: "length s \<le> w \<Longrightarrow> length (pad w s) = w"
  by (simp add: pad_def)

lemma length_iso_date:
  assumes "0 \<le> year d" "year d \<le> 9999" "month d \<le> 12" "day d \<le> 31"
  shows "length (iso_date d) = 10"
proof -
  have y: "length (dec (nat (year d))) \<le> 4"
    using assms by (intro length_dec_le) auto
  have m: "length (dec (month d)) \<le> 2"
    using assms by (intro length_dec_le) auto
  have dd: "length (dec (day d)) \<le> 2"
    using assms by (intro length_dec_le) auto
  show ?thesis
    using assms by (simp add: iso_date_def iso_year_def length_pad y m dd)
qed

lemma iso_date_sample:
  "iso_date \<lparr>year = 2026, month = 11, day = 3, hours = 7, minutes = 5, seconds = 9, milliseconds = 42\<rparr>
     = ''2026-11-03''"
  by (simp add: iso_date_def iso_year_def pad_def dec.simps)

section \<open>The actions on an accepted form\<close>

lemma createInvoice_accepted:
  assumes "parse CreateInvoice (rawFormData fd) = Inr data"
  shows "createInvoice e st fd =
    (Redirect ''/dashboard/invoices'',
     revalidatePath ''/dashboard/invoices''
       (case sql_insert e st (formData_get fd ''customerId'')
               (JNumber (js_mul (ToNumber (formData_get fd ''amount'')) (Fin 100)))
               (formData_get fd ''status'')
               (index (split (CHR ''T'') (toISOString (now e))) 0) of
          Inl err \<Rightarrow> console_error err st
        | Inr st' \<Rightarrow> st'))"
  using parse_CreateInvoice_Inr(4)[OF assms] assms
  by (simp add: createInvoice_def Let_def get_prop_def js_times_def ToNumber_def)

lemma updateInvoice_accepted:
  assumes "parse CreateInvoice (rawFormData fd) = Inr data"
  shows "updateInvoice e st ident fd =
    (Redirect ''/dashboard/invoices'',
     revalidatePath ''/dashboard/invoices''
       (case sql_update e st (formData_get fd ''customerId'')
               (JNumber (js_mul (ToNumber (formData_get fd ''amount'')) (Fin 100)))
               (formData_get fd ''status'') ident of
          Inl err \<Rightarrow> console_error err st
        | Inr st' \<Rightarrow> st'))"
  using parse_CreateInvoice_Inr(4)[OF assms] assms
  by (simp add: updateInvoice_def UpdateInvoice_shape Let_def get_prop_def js_times_def ToNumber_def)

lemma filter_other_ids:
  "ident \<notin> invoice_id ` set rows \<Longrightarrow> filter (\<lambda>r. invoice_id r \<noteq> ident) rows = rows"
  by (induction rows) auto



section \<open>Pages and queries\<close>

lemma Page_currentPage_eq:
  "Page_currentPage sp =
       JNumber (if ToNumber (opt_chain sp page) = NaN \<or> ToNumber (opt_chain sp page) = Fin 0
                then Fin 1 else ToNumber (opt_chain sp page))"
  by (simp add: Page_currentPage_def js_or_def truthy_def)

lemma pages_div: "fetchInvoicesPages txt st term = (length (matching txt st term) + 5) div 6"
proof -
  let ?n = "length (matching txt st term)"
  have "\<lceil>rat_of_nat ?n / rat_of_nat 6\<rceil> = \<lceil>(of_int (int ?n) :: rat) / of_int 6\<rceil>" by simp
  also have "\<dots> = - (- int ?n div 6)" by (rule ceiling_divide_eq_div)
  also have "\<dots> = (int ?n + 5) div 6" by presburger
  finally have "nat \<lceil>rat_of_nat ?n / rat_of_nat 6\<rceil> = nat ((int ?n + 5) div 6)" by simp
  also have "\<dots> = (?n + 5) div 6"
    by (simp add: nat_div_distrib nat_add_distrib)
  finally show ?thesis by (simp add: fetchInvoicesPages_def ITEMS_PER_PAGE_def)
qed

lemma pages_real_ceiling:
  "int (fetchInvoicesPages txt st term) = \<lceil>real (length (matching txt st term)) / 6\<rceil>"
proof -
  let ?n = "length (matching txt st term)"
  have "\<lceil>real ?n / 6\<rceil> = \<lceil>(of_int (int ?n) :: real) / of_int 6\<rceil>" by simp
  also have "\<dots> = - (- int ?n div 6)" by (rule ceiling_divide_eq_div)
  also have "\<dots> = (int ?n + 5) div 6" by presburger
  also have "\<dots> = int ((?n + 5) div 6)" by (simp add: zdiv_int)
  finally show ?thesis by (simp add: pages_div)
qed

lemma matching_sample:
  "matching (\<lambda>v. case v of JString s \<Rightarrow> s | _ \<Rightarrow> [])
     \<lparr>invoices = [\<lparr>invoice_id = ''i1'', customer_id = JString ''c1'', amount = JNumber (Fin 15795),
                    status = JString ''pending'', date = JString ''2022-12-06''\<rparr>],
      customers = [\<lparr>cust_id = ''c1'', name = ''Ada Lovelace'', email = ''ada@example.com'',
                     image_url = ''/customers/ada.png''\<rparr>],
      console = [], revalidated = []\<rparr>
     ''ADA''
   = [(\<lparr>invoice_id = ''i1'', customer_id = JString ''c1'', amount = JNumber (Fin 15795),
                    status = JString ''pending'', date = JString ''2022-12-06''\<rparr>,
       \<lparr>cust_id = ''c1'', name = ''Ada Lovelace'', email = ''ada@example.com'',
                     image_url = ''/customers/ada.png''\<rparr>)]"
  by (simp add: matching_def joined_def matches_def contains_ci_def lower_def lower_char_def sublist_code)

section \<open>The claims\<close>

subsection \<open>C1: the amount that is stored\<close>




subsection \<open>C2: a form that fails validation\<close>

text \<open>
  C2 says that for every form input that fails schema validation \<^verbatim>\<open>createInvoice\<close> and
  \<^verbatim>\<open>updateInvoice\<close> report the failure back to the caller as field-level messages and do
  not throw. Both actions call \<^verbatim>\<open>parse\<close>, not \<^verbatim>\<open>safeParse\<close>, outside any \<^verbatim>\<open>try\<close>. What
  holds: on such an input both actions throw the \<^verbatim>\<open>ZodError\<close> of \<^verbatim>\<open>parse\<close> and leave the
  state as it was (nothing written, logged or revalidated, no redirect); the error
  carries at least one issue, and each issue names one of the three fields.
\<close>

theorem validation_failure_is_thrown:
  assumes "parse CreateInvoice (rawFormData fd) = Inl err"
  shows "createInvoice e st fd = (Threw err, st)
       \<and> updateInvoice e st ident fd = (Threw err, st)
       \<and> (\<exists>iss. err = ZodError iss \<and> iss \<noteq> []
             \<and> path ` set iss \<subseteq> {''customerId'', ''amount'', ''status''})"
  using assms parse_CreateInvoice_Inl2[OF assms]
  by (simp add: createInvoice_def updateInvoice_def UpdateInvoice_shape)

theorem validation_failure_is_thrown_witness:
  "parse CreateInvoice (rawFormData [(''customerId'', Str ''c1''), (''amount'', Str ''10''), (''status'', Str ''draft'')])
     = Inl (ZodError [\<lparr>path = ''status'', code = invalid_enum_value\<rparr>])
   \<and> updateInvoice
     \<lparr>now = \<lparr>year = 2026, month = 11, day = 3, hours = 7, minutes = 5, seconds = 9, milliseconds = 42\<rparr>,
      generated_id = ''i2'', sql_fails = False\<rparr>
     \<lparr>invoices = [\<lparr>invoice_id = ''i1'', customer_id = JString ''c1'', amount = JNumber (Fin 15795),
                    status = JString ''pending'', date = JString ''2022-12-06''\<rparr>],
      customers = [\<lparr>cust_id = ''c1'', name = ''Ada Lovelace'', email = ''ada@example.com'',
                     image_url = ''/customers/ada.png''\<rparr>],
      console = [], revalidated = []\<rparr>
     ''i1''
     [(''customerId'', Str ''c1''), (''amount'', Str ''10''), (''status'', Str ''draft'')]
   = (Threw (ZodError [\<lparr>path = ''status'', code = invalid_enum_value\<rparr>]),
      \<lparr>invoices = [\<lparr>invoice_id = ''i1'', customer_id = JString ''c1'', amount = JNumber (Fin 15795),
                    status = JString ''pending'', date = JString ''2022-12-06''\<rparr>],
      customers = [\<lparr>cust_id = ''c1'', name = ''Ada Lovelace'', email = ''ada@example.com'',
                     image_url = ''/customers/ada.png''\<rparr>],
      console = [], revalidated = []\<rparr>)"
  using validation_failure_is_thrown[OF parse_bad_status] parse_bad_status by simp

text \<open>A form with the status \<^verbatim>\<open>draft\<close>: \<^verbatim>\<open>createInvoice\<close> throws.\<close>

theorem thrown_validation_error_counterexample:
  "createInvoice
     \<lparr>now = \<lparr>year = 2026, month = 11, day = 3, hours = 7, minutes = 5, seconds = 9, milliseconds = 42\<rparr>,
      generated_id = ''i2'', sql_fails = False\<rparr>
     \<lparr>invoices = [], customers = [], console = [], revalidated = []\<rparr>
     [(''customerId'', Str ''c1''), (''amount'', Str ''10''), (''status'', Str ''draft'')]
   = (Threw (ZodError [\<lparr>path = ''status'', code = invalid_enum_value\<rparr>]),
      \<lparr>invoices = [], customers = [], console = [], revalidated = []\<rparr>)"
  by (simp add: createInvoice_def parse_bad_status)

subsection \<open>C3: what the schema accepts\<close>

text \<open>
  C3 says that the schema accepts a form input only if the amount is a number coerced
  from text that is strictly positive and the status is one of \<^verbatim>\<open>pending\<close> and \<^verbatim>\<open>paid\<close>,
  and that any other input is a validation failure. The amount is \<^verbatim>\<open>z.coerce.number()\<close>
  with no bound. What holds: a form is accepted exactly when the customer entry is a
  string, \<^verbatim>\<open>Number\<close> of the amount entry is not \<open>NaN\<close> (zero, negative numbers and a
  missing entry, which is \<^verbatim>\<open>null\<close> and coerces to 0, are accepted) and the status is
  exactly \<^verbatim>\<open>pending\<close> or \<^verbatim>\<open>paid\<close>; any other form is a \<^verbatim>\<open>ZodError\<close> with an issue; the
  schema of the update is the schema of the create.
\<close>

theorem schema_accepts_any_number:
  "((\<exists>data. parse CreateInvoice (rawFormData fd) = Inr data) \<longleftrightarrow>
      (\<exists>c. formData_get fd ''customerId'' = JString c)
      \<and> ToNumber (formData_get fd ''amount'') \<noteq> NaN
      \<and> (formData_get fd ''status'' = JString ''pending''
         \<or> formData_get fd ''status'' = JString ''paid''))
   \<and> (\<forall>err. parse CreateInvoice (rawFormData fd) = Inl err \<longrightarrow>
         (\<exists>iss. err = ZodError iss \<and> iss \<noteq> []))
   \<and> parse UpdateInvoice (rawFormData fd) = parse CreateInvoice (rawFormData fd)"
proof -
  have 1: "(\<exists>data. parse CreateInvoice (rawFormData fd) = Inr data) \<longleftrightarrow>
      (\<exists>c. formData_get fd ''customerId'' = JString c)
      \<and> ToNumber (formData_get fd ''amount'') \<noteq> NaN
      \<and> (formData_get fd ''status'' = JString ''pending''
         \<or> formData_get fd ''status'' = JString ''paid'')"
    using parse_CreateInvoice_Inr(1,2,3)[of fd] parse_CreateInvoice_accepted[of fd]
    by blast
  have 2: "\<forall>err. parse CreateInvoice (rawFormData fd) = Inl err \<longrightarrow>
         (\<exists>iss. err = ZodError iss \<and> iss \<noteq> [])"
    using parse_CreateInvoice_Inl2[of fd] by blast
  from 1 2 show ?thesis by (simp add: UpdateInvoice_shape)
qed

theorem schema_accepts_any_number_witness:
  "(\<exists>data. parse CreateInvoice (rawFormData [(''customerId'', Str ''c1''), (''amount'', Str ''-5''), (''status'', Str ''paid'')]) = Inr data)
   \<and> (\<exists>c. formData_get [(''customerId'', Str ''c1''), (''amount'', Str ''-5''), (''status'', Str ''paid'')] ''customerId'' = JString c)
   \<and> ToNumber (formData_get [(''customerId'', Str ''c1''), (''amount'', Str ''-5''), (''status'', Str ''paid'')] ''amount'') \<noteq> NaN
   \<and> formData_get [(''customerId'', Str ''c1''), (''amount'', Str ''-5''), (''status'', Str ''paid'')] ''status'' = JString ''paid''"
  using schema_accepts_any_number[of "[(''customerId'', Str ''c1''), (''amount'', Str ''-5''), (''status'', Str ''paid'')]"]
    parse_sample_form
  by (simp add: formData_get_def)

text \<open>The amount \<^verbatim>\<open>-5\<close> is coerced to \<open>- 5\<close>, which is not positive, and the form is accepted.\<close>

theorem accepted_negative_amount_counterexample:
  "ToNumber (formData_get [(''customerId'', Str ''c1''), (''amount'', Str ''-5''), (''status'', Str ''pending'')] ''amount'') = Fin (- 5)
   \<and> parse CreateInvoice (rawFormData [(''customerId'', Str ''c1''), (''amount'', Str ''-5''), (''status'', Str ''pending'')])
     = Inr [(''customerId'', JString ''c1''), (''amount'', JNumber (Fin (- 5))), (''status'', JString ''pending'')]"
  by (simp add: CreateInvoice_shape parse_three get_prop_rawFormData formData_get_def ToNumber_def StringToNumber_neg5)

subsection \<open>C4: page size and number of pages\<close>

text \<open>
  C4 says that for every search query \<^verbatim>\<open>fetchFilteredInvoices\<close> returns at most 6
  invoices per page and \<^verbatim>\<open>fetchInvoicesPages\<close> returns exactly the ceiling of the number
  of matching invoices divided by 6. Stated on the two queries as the spec describes
  them, for any text cast of the storage: a page has at most 6 rows and every page from 1
  on has a result; the page count is that ceiling, so 6 times the page count is at least
  the number of matches and less than 6 more; the pages after the last are empty and the
  pages up to the last are not.
\<close>

theorem page_size_and_page_count:
  "(\<forall>rows. fetchFilteredInvoices txt st term p = Some rows \<longrightarrow> length rows \<le> 6)
   \<and> (1 \<le> p \<longrightarrow> fetchFilteredInvoices txt st term p \<noteq> None)
   \<and> int (fetchInvoicesPages txt st term) = \<lceil>real (length (matching txt st term)) / 6\<rceil>
   \<and> length (matching txt st term) \<le> 6 * fetchInvoicesPages txt st term
   \<and> 6 * fetchInvoicesPages txt st term < length (matching txt st term) + 6
   \<and> (fetchInvoicesPages txt st term < p \<longrightarrow> fetchFilteredInvoices txt st term p = Some [])
   \<and> (1 \<le> p \<and> p \<le> fetchInvoicesPages txt st term \<longrightarrow>
        (\<exists>row rows. fetchFilteredInvoices txt st term p = Some (row # rows)))"
proof -
  let ?n = "length (matching txt st term)"
  let ?sorted = "rev (sort_key (\<lambda>row. txt (date (fst row))) (matching txt st term))"
  have len: "length ?sorted = ?n" by simp
  have 1: "\<forall>rows. fetchFilteredInvoices txt st term p = Some rows \<longrightarrow> length rows \<le> 6"
    by (auto simp add: fetchFilteredInvoices_def ITEMS_PER_PAGE_def split: if_splits)
  have 2: "1 \<le> p \<longrightarrow> fetchFilteredInvoices txt st term p \<noteq> None"
    by (simp add: fetchFilteredInvoices_def)
  have 4: "?n \<le> 6 * fetchInvoicesPages txt st term"
    unfolding pages_div by presburger
  have 5: "6 * fetchInvoicesPages txt st term < ?n + 6"
    unfolding pages_div by presburger
  have 6: "fetchInvoicesPages txt st term < p \<longrightarrow> fetchFilteredInvoices txt st term p = Some []"
  proof
    assume a: "fetchInvoicesPages txt st term < p"
    with 4 have "?n \<le> (p - 1) * 6" by (cases p) auto
    with a show "fetchFilteredInvoices txt st term p = Some []"
      by (simp add: fetchFilteredInvoices_def ITEMS_PER_PAGE_def)
  qed
  have 7: "1 \<le> p \<and> p \<le> fetchInvoicesPages txt st term \<longrightarrow>
        (\<exists>row rows. fetchFilteredInvoices txt st term p = Some (row # rows))"
  proof
    assume a: "1 \<le> p \<and> p \<le> fetchInvoicesPages txt st term"
    with 5 have "(p - 1) * 6 < ?n" by (cases p) auto
    then have "drop ((p - 1) * 6) ?sorted \<noteq> []" by simp
    then obtain row rest where "drop ((p - 1) * 6) ?sorted = row # rest"
      by (cases "drop ((p - 1) * 6) ?sorted") auto
    then have "take 6 (drop ((p - 1) * 6) ?sorted) = row # take 5 rest"
      by (simp add: take_Cons')
    with a show "\<exists>row rows. fetchFilteredInvoices txt st term p = Some (row # rows)"
      by (simp add: fetchFilteredInvoices_def ITEMS_PER_PAGE_def)
  qed
  from 1 2 pages_real_ceiling 4 5 6 7 show ?thesis by blast
qed

theorem page_size_and_page_count_witness:
  "fetchFilteredInvoices (\<lambda>v. case v of JString s \<Rightarrow> s | _ \<Rightarrow> [])
     \<lparr>invoices = [\<lparr>invoice_id = ''i1'', customer_id = JString ''c1'', amount = JNumber (Fin 15795),
                    status = JString ''pending'', date = JString ''2022-12-06''\<rparr>],
      customers = [\<lparr>cust_id = ''c1'', name = ''Ada Lovelace'', email = ''ada@example.com'',
                     image_url = ''/customers/ada.png''\<rparr>],
      console = [], revalidated = []\<rparr>
     ''ADA'' 1
   = Some [(\<lparr>invoice_id = ''i1'', customer_id = JString ''c1'', amount = JNumber (Fin 15795),
                    status = JString ''pending'', date = JString ''2022-12-06''\<rparr>,
            \<lparr>cust_id = ''c1'', name = ''Ada Lovelace'', email = ''ada@example.com'',
                     image_url = ''/customers/ada.png''\<rparr>)]
   \<and> length [(\<lparr>invoice_id = ''i1'', customer_id = JString ''c1'', amount = JNumber (Fin 15795),
                    status = JString ''pending'', date = JString ''2022-12-06''\<rparr>,
            \<lparr>cust_id = ''c1'', name = ''Ada Lovelace'', email = ''ada@example.com'',
                     image_url = ''/customers/ada.png''\<rparr>)] \<le> 6
   \<and> fetchInvoicesPages (\<lambda>v. case v of JString s \<Rightarrow> s | _ \<Rightarrow> [])
     \<lparr>invoices = [\<lparr>invoice_id = ''i1'', customer_id = JString ''c1'', amount = JNumber (Fin 15795),
                    status = JString ''pending'', date = JString ''2022-12-06''\<rparr>],
      customers = [\<lparr>cust_id = ''c1'', name = ''Ada Lovelace'', email = ''ada@example.com'',
                     image_url = ''/customers/ada.png''\<rparr>],
      console = [], revalidated = []\<rparr>
     ''ADA'' = 1
   \<and> fetchFilteredInvoices (\<lambda>v. case v of JString s \<Rightarrow> s | _ \<Rightarrow> [])
     \<lparr>invoices = [\<lparr>invoice_id = ''i1'', customer_id = JString ''c1'', amount = JNumber (Fin 15795),
                    status = JString ''pending'', date = JString ''2022-12-06''\<rparr>],
      customers = [\<lparr>cust_id = ''c1'', name = ''Ada Lovelace'', email = ''ada@example.com'',
                     image_url = ''/customers/ada.png''\<rparr>],
      console = [], revalidated = []\<rparr>
     ''ADA'' 2 = Some []"
proof -
  let ?txt = "(\<lambda>v. case v of JString s \<Rightarrow> s | _ \<Rightarrow> [])"
  let ?st = "\<lparr>invoices = [\<lparr>invoice_id = ''i1'', customer_id = JString ''c1'', amount = JNumber (Fin 15795),
                    status = JString ''pending'', date = JString ''2022-12-06''\<rparr>],
      customers = [\<lparr>cust_id = ''c1'', name = ''Ada Lovelace'', email = ''ada@example.com'',
                     image_url = ''/customers/ada.png''\<rparr>],
      console = [], revalidated = []\<rparr>"
  have f: "fetchFilteredInvoices ?txt ?st ''ADA'' 1
   = Some [(\<lparr>invoice_id = ''i1'', customer_id = JString ''c1'', amount = JNumber (Fin 15795),
                    status = JString ''pending'', date = JString ''2022-12-06''\<rparr>,
            \<lparr>cust_id = ''c1'', name = ''Ada Lovelace'', email = ''ada@example.com'',
                     image_url = ''/customers/ada.png''\<rparr>)]"
    by (simp add: fetchFilteredInvoices_def matching_sample ITEMS_PER_PAGE_def)
  note t = page_size_and_page_count[of ?txt ?st "''ADA''" 1]
  from t f have l: "length [(\<lparr>invoice_id = ''i1'', customer_id = JString ''c1'', amount = JNumber (Fin 15795),
                    status = JString ''pending'', date = JString ''2022-12-06''\<rparr>,
            \<lparr>cust_id = ''c1'', name = ''Ada Lovelace'', email = ''ada@example.com'',
                     image_url = ''/customers/ada.png''\<rparr>)] \<le> 6"
    by blast
  from t have "length (matching ?txt ?st ''ADA'') \<le> 6 * fetchInvoicesPages ?txt ?st ''ADA''
      \<and> 6 * fetchInvoicesPages ?txt ?st ''ADA'' < length (matching ?txt ?st ''ADA'') + 6"
    by blast
  then have p: "fetchInvoicesPages ?txt ?st ''ADA'' = 1"
    by (simp add: matching_sample)
  note u = page_size_and_page_count[of ?txt ?st "''ADA''" 2]
  from u have "fetchInvoicesPages ?txt ?st ''ADA'' < 2 \<longrightarrow> fetchFilteredInvoices ?txt ?st ''ADA'' 2 = Some []"
    by blast
  with p have e: "fetchFilteredInvoices ?txt ?st ''ADA'' 2 = Some []" by simp
  from f l p e show ?thesis by blast
qed

subsection \<open>C5: who redirects\<close>

text \<open>
  C5 says that after \<^verbatim>\<open>createInvoice\<close> and after \<^verbatim>\<open>updateInvoice\<close> a redirect to
  \<^verbatim>\<open>/dashboard/invoices\<close> is issued, and that after \<^verbatim>\<open>deleteInvoice\<close> no redirect is
  issued. For a form that passes validation, create and update end in that redirect,
  whether or not the statement succeeded; delete never ends in a redirect.
\<close>

theorem redirect_after_create_and_update_not_delete:
  assumes "parse CreateInvoice (rawFormData fd) = Inr data"
    and "parse UpdateInvoice (rawFormData fd') = Inr data'"
  shows "fst (createInvoice e st fd) = Redirect ''/dashboard/invoices''
       \<and> fst (updateInvoice e st ident fd') = Redirect ''/dashboard/invoices''
       \<and> fst (deleteInvoice e st ident) \<noteq> Redirect p"
proof -
  have u: "parse CreateInvoice (rawFormData fd') = Inr data'"
    using assms(2) by (simp add: UpdateInvoice_shape)
  have "fst (deleteInvoice e st ident) \<noteq> Redirect p"
    by (simp add: deleteInvoice_def sql_delete_def)
  then show ?thesis
    by (simp add: createInvoice_accepted[OF assms(1)] updateInvoice_accepted[OF u])
qed

theorem redirect_after_create_and_update_not_delete_witness:
  "parse CreateInvoice (rawFormData [(''customerId'', Str ''c1''), (''amount'', Str ''-5''), (''status'', Str ''paid'')])
     = Inr [(''customerId'', JString ''c1''), (''amount'', JNumber (Fin (- 5))), (''status'', JString ''paid'')]
   \<and> parse UpdateInvoice (rawFormData [(''customerId'', Str ''c1''), (''amount'', Str ''-5''), (''status'', Str ''paid'')])
     = Inr [(''customerId'', JString ''c1''), (''amount'', JNumber (Fin (- 5))), (''status'', JString ''paid'')]
   \<and> fst (createInvoice
        \<lparr>now = \<lparr>year = 2026, month = 11, day = 3, hours = 7, minutes = 5, seconds = 9, milliseconds = 42\<rparr>,
      generated_id = ''i2'', sql_fails = False\<rparr>
        \<lparr>invoices = [\<lparr>invoice_id = ''i1'', customer_id = JString ''c1'', amount = JNumber (Fin 15795),
                    status = JString ''pending'', date = JString ''2022-12-06''\<rparr>],
      customers = [\<lparr>cust_id = ''c1'', name = ''Ada Lovelace'', email = ''ada@example.com'',
                     image_url = ''/customers/ada.png''\<rparr>],
      console = [], revalidated = []\<rparr>
        [(''customerId'', Str ''c1''), (''amount'', Str ''-5''), (''status'', Str ''paid'')]) = Redirect ''/dashboard/invoices''
   \<and> fst (updateInvoice
        \<lparr>now = \<lparr>year = 2026, month = 11, day = 3, hours = 7, minutes = 5, seconds = 9, milliseconds = 42\<rparr>,
      generated_id = ''i2'', sql_fails = False\<rparr>
        \<lparr>invoices = [\<lparr>invoice_id = ''i1'', customer_id = JString ''c1'', amount = JNumber (Fin 15795),
                    status = JString ''pending'', date = JString ''2022-12-06''\<rparr>],
      customers = [\<lparr>cust_id = ''c1'', name = ''Ada Lovelace'', email = ''ada@example.com'',
                     image_url = ''/customers/ada.png''\<rparr>],
      console = [], revalidated = []\<rparr>
        ''i1''
        [(''customerId'', Str ''c1''), (''amount'', Str ''-5''), (''status'', Str ''paid'')]) = Redirect ''/dashboard/invoices''
   \<and> fst (deleteInvoice
        \<lparr>now = \<lparr>year = 2026, month = 11, day = 3, hours = 7, minutes = 5, seconds = 9, milliseconds = 42\<rparr>,
      generated_id = ''i2'', sql_fails = False\<rparr>
        \<lparr>invoices = [\<lparr>invoice_id = ''i1'', customer_id = JString ''c1'', amount = JNumber (Fin 15795),
                    status = JString ''pending'', date = JString ''2022-12-06''\<rparr>],
      customers = [\<lparr>cust_id = ''c1'', name = ''Ada Lovelace'', email = ''ada@example.com'',
                     image_url = ''/customers/ada.png''\<rparr>],
      console = [], revalidated = []\<rparr>
        ''i1'') \<noteq> Redirect ''/dashboard/invoices''"
proof -
  have u: "parse UpdateInvoice (rawFormData [(''customerId'', Str ''c1''), (''amount'', Str ''-5''), (''status'', Str ''paid'')])
     = Inr [(''customerId'', JString ''c1''), (''amount'', JNumber (Fin (- 5))), (''status'', JString ''paid'')]"
    using parse_sample_form by (simp add: UpdateInvoice_shape)
  from redirect_after_create_and_update_not_delete[OF parse_sample_form u] parse_sample_form u
  show ?thesis by blast
qed

subsection \<open>C6: a statement that fails\<close>

text \<open>
  C6 says that for every mutation (create, update, delete) a failing storage write is
  caught and logged and the function still performs the same cache invalidation and, for
  create and update, the same redirect as on success. Create and update have the
  \<^verbatim>\<open>try\<close>; \<^verbatim>\<open>deleteInvoice\<close> has none. What holds: when the statement fails, create and
  update log the error, call \<^verbatim>\<open>revalidatePath\<close> and redirect, with the same outcome and
  the same revalidated paths as the run in which the statement succeeds; in
  \<^verbatim>\<open>deleteInvoice\<close> the error is thrown to the caller, nothing is logged and nothing is
  revalidated.
\<close>

theorem storage_failure_caught_by_create_and_update:
  assumes "parse CreateInvoice (rawFormData fd) = Inr data" and "sql_fails e"
  shows "createInvoice e st fd =
           (Redirect ''/dashboard/invoices'',
            revalidatePath ''/dashboard/invoices'' (console_error SqlError st))
       \<and> updateInvoice e st ident fd =
           (Redirect ''/dashboard/invoices'',
            revalidatePath ''/dashboard/invoices'' (console_error SqlError st))
       \<and> fst (createInvoice e st fd) = fst (createInvoice (e\<lparr>sql_fails := False\<rparr>) st fd)
       \<and> revalidated (snd (createInvoice e st fd))
           = revalidated (snd (createInvoice (e\<lparr>sql_fails := False\<rparr>) st fd))
       \<and> fst (updateInvoice e st ident fd) = fst (updateInvoice (e\<lparr>sql_fails := False\<rparr>) st ident fd)
       \<and> revalidated (snd (updateInvoice e st ident fd))
           = revalidated (snd (updateInvoice (e\<lparr>sql_fails := False\<rparr>) st ident fd))
       \<and> deleteInvoice e st ident = (Threw SqlError, st)"
  using assms(2)
  by (simp add: createInvoice_accepted[OF assms(1)] updateInvoice_accepted[OF assms(1)]
      sql_insert_def sql_update_def sql_delete_def deleteInvoice_def revalidatePath_def console_error_def)

theorem storage_failure_caught_by_create_and_update_witness:
  "parse CreateInvoice (rawFormData [(''customerId'', Str ''c1''), (''amount'', Str ''-5''), (''status'', Str ''paid'')])
     = Inr [(''customerId'', JString ''c1''), (''amount'', JNumber (Fin (- 5))), (''status'', JString ''paid'')]
   \<and> sql_fails \<lparr>now = \<lparr>year = 2026, month = 11, day = 3, hours = 7, minutes = 5, seconds = 9, milliseconds = 42\<rparr>,
      generated_id = ''i2'', sql_fails = True\<rparr>
   \<and> createInvoice
        \<lparr>now = \<lparr>year = 2026, month = 11, day = 3, hours = 7, minutes = 5, seconds = 9, milliseconds = 42\<rparr>,
      generated_id = ''i2'', sql_fails = True\<rparr>
        \<lparr>invoices = [], customers = [], console = [], revalidated = []\<rparr>
        [(''customerId'', Str ''c1''), (''amount'', Str ''-5''), (''status'', Str ''paid'')]
      = (Redirect ''/dashboard/invoices'',
         \<lparr>invoices = [], customers = [], console = [SqlError], revalidated = [''/dashboard/invoices'']\<rparr>)"
proof -
  have f: "sql_fails \<lparr>now = \<lparr>year = 2026, month = 11, day = 3, hours = 7, minutes = 5, seconds = 9, milliseconds = 42\<rparr>,
      generated_id = ''i2'', sql_fails = True\<rparr>" by simp
  from storage_failure_caught_by_create_and_update[OF parse_sample_form f, of "\<lparr>invoices = [], customers = [], console = [], revalidated = []\<rparr>"]
    parse_sample_form
  show ?thesis by (simp add: revalidatePath_def console_error_def)
qed

text \<open>\<^verbatim>\<open>deleteInvoice\<close> with a failing statement throws and leaves the state as it was.\<close>

theorem delete_storage_failure_counterexample:
  "deleteInvoice
     \<lparr>now = \<lparr>year = 2026, month = 11, day = 3, hours = 7, minutes = 5, seconds = 9, milliseconds = 42\<rparr>,
      generated_id = ''i2'', sql_fails = True\<rparr>
     \<lparr>invoices = [\<lparr>invoice_id = ''i1'', customer_id = JString ''c1'', amount = JNumber (Fin 15795),
                    status = JString ''pending'', date = JString ''2022-12-06''\<rparr>],
      customers = [\<lparr>cust_id = ''c1'', name = ''Ada Lovelace'', email = ''ada@example.com'',
                     image_url = ''/customers/ada.png''\<rparr>],
      console = [], revalidated = []\<rparr>
     ''i1''
   = (Threw SqlError,
      \<lparr>invoices = [\<lparr>invoice_id = ''i1'', customer_id = JString ''c1'', amount = JNumber (Fin 15795),
                    status = JString ''pending'', date = JString ''2022-12-06''\<rparr>],
      customers = [\<lparr>cust_id = ''c1'', name = ''Ada Lovelace'', email = ''ada@example.com'',
                     image_url = ''/customers/ada.png''\<rparr>],
      console = [], revalidated = []\<rparr>)"
  by (simp add: deleteInvoice_def sql_delete_def)

subsection \<open>C7: deleting an invoice that is not there\<close>

text \<open>
  C7 says that for every identifier, \<^verbatim>\<open>deleteInvoice\<close> on an identifier with no matching
  invoice completes without error and leaves the invoices table unchanged. When no row
  has the identifier and the statement itself does not fail, the action returns, both
  tables are as before, and a second call changes nothing but the list of revalidated
  paths.
\<close>

theorem delete_of_missing_invoice:
  assumes "ident \<notin> invoice_id ` set (invoices st)" and "\<not> sql_fails e"
  shows "fst (deleteInvoice e st ident) = Returned
       \<and> invoices (snd (deleteInvoice e st ident)) = invoices st
       \<and> customers (snd (deleteInvoice e st ident)) = customers st
       \<and> snd (deleteInvoice e (snd (deleteInvoice e st ident)) ident)
           = revalidatePath ''/dashboard/invoices'' (snd (deleteInvoice e st ident))"
  using assms
  by (simp add: deleteInvoice_def sql_delete_def revalidatePath_def filter_other_ids)

theorem delete_of_missing_invoice_witness:
  "''i7'' \<notin> invoice_id ` set (invoices \<lparr>invoices = [\<lparr>invoice_id = ''i1'', customer_id = JString ''c1'', amount = JNumber (Fin 15795),
                    status = JString ''pending'', date = JString ''2022-12-06''\<rparr>],
      customers = [\<lparr>cust_id = ''c1'', name = ''Ada Lovelace'', email = ''ada@example.com'',
                     image_url = ''/customers/ada.png''\<rparr>],
      console = [], revalidated = []\<rparr>)
   \<and> \<not> sql_fails \<lparr>now = \<lparr>year = 2026, month = 11, day = 3, hours = 7, minutes = 5, seconds = 9, milliseconds = 42\<rparr>,
      generated_id = ''i2'', sql_fails = False\<rparr>
   \<and> fst (deleteInvoice
        \<lparr>now = \<lparr>year = 2026, month = 11, day = 3, hours = 7, minutes = 5, seconds = 9, milliseconds = 42\<rparr>,
      generated_id = ''i2'', sql_fails = False\<rparr>
        \<lparr>invoices = [\<lparr>invoice_id = ''i1'', customer_id = JString ''c1'', amount = JNumber (Fin 15795),
                    status = JString ''pending'', date = JString ''2022-12-06''\<rparr>],
      customers = [\<lparr>cust_id = ''c1'', name = ''Ada Lovelace'', email = ''ada@example.com'',
                     image_url = ''/customers/ada.png''\<rparr>],
      console = [], revalidated = []\<rparr>
        ''i7'') = Returned
   \<and> invoices (snd (deleteInvoice
        \<lparr>now = \<lparr>year = 2026, month = 11, day = 3, hours = 7, minutes = 5, seconds = 9, milliseconds = 42\<rparr>,
      generated_id = ''i2'', sql_fails = False\<rparr>
        \<lparr>invoices = [\<lparr>invoice_id = ''i1'', customer_id = JString ''c1'', amount = JNumber (Fin 15795),
                    status = JString ''pending'', date = JString ''2022-12-06''\<rparr>],
      customers = [\<lparr>cust_id = ''c1'', name = ''Ada Lovelace'', email = ''ada@example.com'',
                     image_url = ''/customers/ada.png''\<rparr>],
      console = [], revalidated = []\<rparr>
        ''i7''))
      = [\<lparr>invoice_id = ''i1'', customer_id = JString ''c1'', amount = JNumber (Fin 15795),
                    status = JString ''pending'', date = JString ''2022-12-06''\<rparr>]"
proof -
  have a: "''i7'' \<notin> invoice_id ` set (invoices \<lparr>invoices = [\<lparr>invoice_id = ''i1'', customer_id = JString ''c1'', amount = JNumber (Fin 15795),
                    status = JString ''pending'', date = JString ''2022-12-06''\<rparr>],
      customers = [\<lparr>cust_id = ''c1'', name = ''Ada Lovelace'', email = ''ada@example.com'',
                     image_url = ''/customers/ada.png''\<rparr>],
      console = [], revalidated = []\<rparr>)" by simp
  have b: "\<not> sql_fails \<lparr>now = \<lparr>year = 2026, month = 11, day = 3, hours = 7, minutes = 5, seconds = 9, milliseconds = 42\<rparr>,
      generated_id = ''i2'', sql_fails = False\<rparr>" by simp
  from delete_of_missing_invoice[OF a b] a b show ?thesis by simp
qed

subsection \<open>C8: the parameters of the invoices page\<close>

text \<open>
  C8 says that for every request the page resolves \<^verbatim>\<open>query\<close> to a string, empty when
  absent, and \<^verbatim>\<open>page\<close> to a positive integer, 1 when absent or non-numeric. The page
  computes \<^verbatim>\<open>Number(searchParams?.page) || 1\<close>, which replaces only \<open>NaN\<close> and 0. What
  holds: \<^verbatim>\<open>query\<close> is the given string, or the empty string when absent; \<^verbatim>\<open>page\<close> is
  \<^verbatim>\<open>Number\<close> of the text, or 1 when that is \<open>NaN\<close> or 0, so 1 when the parameter is absent
  or not numeric; it is the positive integer \<open>n\<close> when the text is the decimal numeral of
  \<open>n\<close> with \<open>0 < n < 2 ^ 53\<close>. A negative or fractional number is passed on as it is.
\<close>

theorem page_parameters_resolved:
  "Page_query sp =
     JString (case sp of None \<Rightarrow> [] | Some r \<Rightarrow> (case query r of None \<Rightarrow> [] | Some q \<Rightarrow> q))
   \<and> Page_currentPage sp =
       JNumber (if ToNumber (opt_chain sp page) = NaN \<or> ToNumber (opt_chain sp page) = Fin 0
                then Fin 1 else ToNumber (opt_chain sp page))
   \<and> (opt_chain sp page = JUndefined \<longrightarrow> Page_currentPage sp = JNumber (Fin 1))
   \<and> (\<forall>r n. sp = Some r \<and> page r = Some (dec n) \<and> 0 < n \<and> n < 2 ^ 53 \<longrightarrow>
         Page_currentPage sp = JNumber (Fin (of_nat n)))"
proof -
  have 1: "Page_query sp =
     JString (case sp of None \<Rightarrow> [] | Some r \<Rightarrow> (case query r of None \<Rightarrow> [] | Some q \<Rightarrow> q))"
    by (simp add: Page_query_def js_or_def truthy_def opt_chain_def split: option.splits)
  have 2: "Page_currentPage sp =
       JNumber (if ToNumber (opt_chain sp page) = NaN \<or> ToNumber (opt_chain sp page) = Fin 0
                then Fin 1 else ToNumber (opt_chain sp page))"
    by (rule Page_currentPage_eq)
  have 3: "opt_chain sp page = JUndefined \<longrightarrow> Page_currentPage sp = JNumber (Fin 1)"
    by (simp add: Page_currentPage_eq ToNumber_def)
  have 4: "\<forall>r n. sp = Some r \<and> page r = Some (dec n) \<and> 0 < n \<and> n < 2 ^ 53 \<longrightarrow>
         Page_currentPage sp = JNumber (Fin (of_nat n))"
  proof (intro allI impI)
    fix r n
    assume a: "sp = Some r \<and> page r = Some (dec n) \<and> 0 < n \<and> n < 2 ^ 53"
    then have "ToNumber (opt_chain sp page) = Fin (of_nat n)"
      by (simp add: opt_chain_def ToNumber_JString_dec)
    with a show "Page_currentPage sp = JNumber (Fin (of_nat n))"
      by (simp add: Page_currentPage_eq)
  qed
  from 1 2 3 4 show ?thesis by blast
qed

theorem page_parameters_resolved_witness:
  "Page_query (Some \<lparr>query = Some ''lee'', page = Some ''2''\<rparr>) = JString ''lee''
   \<and> Page_currentPage (Some \<lparr>query = Some ''lee'', page = Some ''2''\<rparr>) = JNumber (Fin 2)
   \<and> Page_query None = JString []
   \<and> Page_currentPage None = JNumber (Fin 1)"
proof -
  let ?sp = "Some \<lparr>query = Some ''lee'', page = Some ''2''\<rparr>"
  have d: "dec 2 = ''2''" by (simp add: dec.simps)
  note t = page_parameters_resolved[of ?sp]
  from t have q: "Page_query ?sp = JString ''lee''" by simp
  from t have "\<forall>r n. ?sp = Some r \<and> page r = Some (dec n) \<and> 0 < n \<and> n < 2 ^ 53 \<longrightarrow>
         Page_currentPage ?sp = JNumber (Fin (of_nat n))" by blast
  from this[rule_format, of "\<lparr>query = Some ''lee'', page = Some ''2''\<rparr>" 2] d
  have c: "Page_currentPage ?sp = JNumber (Fin 2)" by simp
  note u = page_parameters_resolved[of None]
  from u have q0: "Page_query None = JString []" by simp
  from u have "opt_chain None page = JUndefined \<longrightarrow> Page_currentPage None = JNumber (Fin 1)"
    by blast
  then have c0: "Page_currentPage None = JNumber (Fin 1)" by (simp add: opt_chain_def)
  from q c q0 c0 show ?thesis by blast
qed

text \<open>The page parameter \<^verbatim>\<open>-3\<close> resolves to \<open>- 3\<close>, which is not a positive integer.\<close>

theorem negative_page_counterexample:
  "Page_currentPage (Some \<lparr>query = None, page = Some ''-3''\<rparr>) = JNumber (Fin (- 3))"
proof -
  have "round_double (- 3) = Fin (- 3)" using round_double_of_int[of "- 3"] by simp
  then have "StringToNumber ''-3'' = Fin (- 3)"
    by (simp add: StringToNumber_def trim_def is_ws_def parse_decimal_def digit_val_def)
  then show ?thesis
    by (simp add: Page_currentPage_eq opt_chain_def ToNumber_def)
qed

subsection \<open>C9: the edit page of an invoice that is not there\<close>

text \<open>
  C9 says that for every identifier, when the lookup by identifier on the edit page finds
  no invoice, the result is a distinct "not found" presentation state rather than the
  generic error state. When the lookup gives nothing and the customers were fetched,
  the page calls \<^verbatim>\<open>notFound()\<close> and the view of \<^verbatim>\<open>not-found.tsx\<close> is shown; a thrown
  error shows the view of \<^verbatim>\<open>error.tsx\<close>; the two are different.
\<close>

theorem lookup_without_invoice_is_not_found:
  assumes "fetchInvoice ident = Inr None" and "fetchedCustomers = Inr cs"
  shows "present (edit_Page fetchInvoice fetchedCustomers ident) = Shown NotFound
       \<and> present (PageThrew err) = Shown Error
       \<and> Shown NotFound \<noteq> Shown Error"
  using assms
  by (simp add: edit_Page_def present_def NotFound_def Error_def)

theorem lookup_without_invoice_is_not_found_witness:
  "fetchInvoiceById
     \<lparr>now = \<lparr>year = 2026, month = 11, day = 3, hours = 7, minutes = 5, seconds = 9, milliseconds = 42\<rparr>,
      generated_id = ''i2'', sql_fails = False\<rparr>
     \<lparr>invoices = [\<lparr>invoice_id = ''i1'', customer_id = JString ''c1'', amount = JNumber (Fin 15795),
                    status = JString ''pending'', date = JString ''2022-12-06''\<rparr>],
      customers = [\<lparr>cust_id = ''c1'', name = ''Ada Lovelace'', email = ''ada@example.com'',
                     image_url = ''/customers/ada.png''\<rparr>],
      console = [], revalidated = []\<rparr>
     ''i7'' = Inr None
   \<and> present (edit_Page
        (fetchInvoiceById
           \<lparr>now = \<lparr>year = 2026, month = 11, day = 3, hours = 7, minutes = 5, seconds = 9, milliseconds = 42\<rparr>,
      generated_id = ''i2'', sql_fails = False\<rparr>
           \<lparr>invoices = [\<lparr>invoice_id = ''i1'', customer_id = JString ''c1'', amount = JNumber (Fin 15795),
                    status = JString ''pending'', date = JString ''2022-12-06''\<rparr>],
      customers = [\<lparr>cust_id = ''c1'', name = ''Ada Lovelace'', email = ''ada@example.com'',
                     image_url = ''/customers/ada.png''\<rparr>],
      console = [], revalidated = []\<rparr>)
        (fetchCustomers
           \<lparr>now = \<lparr>year = 2026, month = 11, day = 3, hours = 7, minutes = 5, seconds = 9, milliseconds = 42\<rparr>,
      generated_id = ''i2'', sql_fails = False\<rparr>
           \<lparr>invoices = [\<lparr>invoice_id = ''i1'', customer_id = JString ''c1'', amount = JNumber (Fin 15795),
                    status = JString ''pending'', date = JString ''2022-12-06''\<rparr>],
      customers = [\<lparr>cust_id = ''c1'', name = ''Ada Lovelace'', email = ''ada@example.com'',
                     image_url = ''/customers/ada.png''\<rparr>],
      console = [], revalidated = []\<rparr>)
        ''i7'')
      = Shown \<lparr>heading = ''404 Not Found'', message = ''Could not find the requested invoice.'',
               button = ''Go Back''\<rparr>"
proof -
  have a: "fetchInvoiceById
     \<lparr>now = \<lparr>year = 2026, month = 11, day = 3, hours = 7, minutes = 5, seconds = 9, milliseconds = 42\<rparr>,
      generated_id = ''i2'', sql_fails = False\<rparr>
     \<lparr>invoices = [\<lparr>invoice_id = ''i1'', customer_id = JString ''c1'', amount = JNumber (Fin 15795),
                    status = JString ''pending'', date = JString ''2022-12-06''\<rparr>],
      customers = [\<lparr>cust_id = ''c1'', name = ''Ada Lovelace'', email = ''ada@example.com'',
                     image_url = ''/customers/ada.png''\<rparr>],
      console = [], revalidated = []\<rparr>
     ''i7'' = Inr None"
    by (simp add: fetchInvoiceById_def)
  have b: "fetchCustomers
           \<lparr>now = \<lparr>year = 2026, month = 11, day = 3, hours = 7, minutes = 5, seconds = 9, milliseconds = 42\<rparr>,
      generated_id = ''i2'', sql_fails = False\<rparr>
           \<lparr>invoices = [\<lparr>invoice_id = ''i1'', customer_id = JString ''c1'', amount = JNumber (Fin 15795),
                    status = JString ''pending'', date = JString ''2022-12-06''\<rparr>],
      customers = [\<lparr>cust_id = ''c1'', name = ''Ada Lovelace'', email = ''ada@example.com'',
                     image_url = ''/customers/ada.png''\<rparr>],
      console = [], revalidated = []\<rparr> = Inr [\<lparr>cust_id = ''c1'', name = ''Ada Lovelace'', email = ''ada@example.com'',
                     image_url = ''/customers/ada.png''\<rparr>]"
    by (simp add: fetchCustomers_def)
  from lookup_without_invoice_is_not_found[where fetchInvoice = "fetchInvoiceById
           \<lparr>now = \<lparr>year = 2026, month = 11, day = 3, hours = 7, minutes = 5, seconds = 9, milliseconds = 42\<rparr>,
      generated_id = ''i2'', sql_fails = False\<rparr>
           \<lparr>invoices = [\<lparr>invoice_id = ''i1'', customer_id = JString ''c1'', amount = JNumber (Fin 15795),
                    status = JString ''pending'', date = JString ''2022-12-06''\<rparr>],
      customers = [\<lparr>cust_id = ''c1'', name = ''Ada Lovelace'', email = ''ada@example.com'',
                     image_url = ''/customers/ada.png''\<rparr>],
      console = [], revalidated = []\<rparr>" and ident = "''i7''", OF a b] a
  show ?thesis by (simp add: NotFound_def)
qed

subsection \<open>C10: the date of a new invoice\<close>

text \<open>
  C10 says that for every form input the date stored by \<^verbatim>\<open>createInvoice\<close> is never taken
  from the input: the schema omits the \<^verbatim>\<open>id\<close> and \<^verbatim>\<open>date\<close> fields, and the stored date is
  the server's current date formatted as \<^verbatim>\<open>YYYY-MM-DD\<close>, the first segment of the ISO
  timestamp before \<^verbatim>\<open>T\<close>. The shape of \<^verbatim>\<open>CreateInvoice\<close> has the three other keys only;
  for every accepted form, each row that the insert adds carries the date part of the
  clock's ISO string, whatever the form holds, and the row is added whenever the database
  does not fail and the amount fits its column; that part stands before the first \<^verbatim>\<open>T\<close>;
  and in the years 0 to 9999 it is the four digits of the year, the two of the month
  and the two of the day, ten characters for a calendar date.
\<close>

theorem stored_date_is_server_date:
  assumes "parse CreateInvoice (rawFormData fd) = Inr data" and "\<not> sql_fails e"
  shows "map fst CreateInvoice = [''customerId'', ''amount'', ''status'']
       \<and> (\<forall>r \<in> set (invoices (snd (createInvoice e st fd))).
             r \<in> set (invoices st) \<or> date r = JString (iso_date (now e)))
       \<and> (whole_number (JNumber (js_mul (ToNumber (formData_get fd ''amount'')) (Fin 100))) \<longrightarrow>
            (\<exists>r. invoices (snd (createInvoice e st fd)) = invoices st @ [r]
              \<and> date r = JString (iso_date (now e))))
       \<and> toISOString (now e) = iso_date (now e) @ ''T'' @ iso_time (now e)
       \<and> CHR ''T'' \<notin> set (iso_date (now e))
       \<and> (0 \<le> year (now e) \<and> year (now e) \<le> 9999 \<longrightarrow>
            iso_date (now e) = pad 4 (dec (nat (year (now e)))) @ ''-'' @ pad 2 (dec (month (now e)))
                               @ ''-'' @ pad 2 (dec (day (now e))))
       \<and> (0 \<le> year (now e) \<and> year (now e) \<le> 9999 \<and> month (now e) \<le> 12 \<and> day (now e) \<le> 31 \<longrightarrow>
            length (iso_date (now e)) = 10)"
proof -
  let ?p = "JNumber (js_mul (ToNumber (formData_get fd ''amount'')) (Fin 100))"
  have 1: "map fst CreateInvoice = [''customerId'', ''amount'', ''status'']"
    by (simp add: CreateInvoice_shape)
  have 2: "\<forall>r \<in> set (invoices (snd (createInvoice e st fd))).
             r \<in> set (invoices st) \<or> date r = JString (iso_date (now e))"
    by (auto simp add: createInvoice_accepted[OF assms(1)] sql_insert_def revalidatePath_def
        console_error_def date_of_now)
  have 3: "whole_number ?p \<longrightarrow>
            (\<exists>r. invoices (snd (createInvoice e st fd)) = invoices st @ [r]
              \<and> date r = JString (iso_date (now e)))"
    using assms(2)
    by (simp add: createInvoice_accepted[OF assms(1)] sql_insert_def revalidatePath_def date_of_now)
  have 4: "toISOString (now e) = iso_date (now e) @ ''T'' @ iso_time (now e)"
    by (simp add: toISOString_def)
  have 5: "0 \<le> year (now e) \<and> year (now e) \<le> 9999 \<longrightarrow>
            iso_date (now e) = pad 4 (dec (nat (year (now e)))) @ ''-'' @ pad 2 (dec (month (now e)))
                               @ ''-'' @ pad 2 (dec (day (now e)))"
    by (simp add: iso_date_def iso_year_def)
  have 6: "0 \<le> year (now e) \<and> year (now e) \<le> 9999 \<and> month (now e) \<le> 12 \<and> day (now e) \<le> 31 \<longrightarrow>
            length (iso_date (now e)) = 10"
    by (simp add: length_iso_date)
  from 1 2 3 4 T_notin_iso_date 5 6 show ?thesis by blast
qed

theorem stored_date_is_server_date_witness:
  "parse CreateInvoice (rawFormData [(''customerId'', Str ''c1''), (''amount'', Str ''-5''), (''status'', Str ''paid'')])
     = Inr [(''customerId'', JString ''c1''), (''amount'', JNumber (Fin (- 5))), (''status'', JString ''paid'')]
   \<and> (\<exists>r. invoices (snd (createInvoice
        \<lparr>now = \<lparr>year = 2026, month = 11, day = 3, hours = 7, minutes = 5, seconds = 9, milliseconds = 42\<rparr>,
      generated_id = ''i2'', sql_fails = False\<rparr>
        \<lparr>invoices = [], customers = [], console = [], revalidated = []\<rparr>
        [(''customerId'', Str ''c1''), (''amount'', Str ''-5''), (''status'', Str ''paid'')])) = [r]
        \<and> date r = JString ''2026-11-03'')
   \<and> length ''2026-11-03'' = 10"
proof -
  have ok: "\<not> sql_fails \<lparr>now = \<lparr>year = 2026, month = 11, day = 3, hours = 7, minutes = 5, seconds = 9, milliseconds = 42\<rparr>,
      generated_id = ''i2'', sql_fails = False\<rparr>" by simp
  have w: "whole_number (JNumber (js_mul (ToNumber (formData_get [(''customerId'', Str ''c1''), (''amount'', Str ''-5''), (''status'', Str ''paid'')] ''amount'')) (Fin 100)))"
    by (simp add: formData_get_def ToNumber_def StringToNumber_neg5 js_mul_neg5 whole_number_def)
  note t = stored_date_is_server_date[OF parse_sample_form ok, of "\<lparr>invoices = [], customers = [], console = [], revalidated = []\<rparr>"]
  from t w have "\<exists>r. invoices (snd (createInvoice
        \<lparr>now = \<lparr>year = 2026, month = 11, day = 3, hours = 7, minutes = 5, seconds = 9, milliseconds = 42\<rparr>,
      generated_id = ''i2'', sql_fails = False\<rparr>
        \<lparr>invoices = [], customers = [], console = [], revalidated = []\<rparr>
        [(''customerId'', Str ''c1''), (''amount'', Str ''-5''), (''status'', Str ''paid'')])) = invoices \<lparr>invoices = [], customers = [], console = [], revalidated = []\<rparr> @ [r]
        \<and> date r = JString (iso_date (now \<lparr>now = \<lparr>year = 2026, month = 11, day = 3, hours = 7, minutes = 5, seconds = 9, milliseconds = 42\<rparr>,
      generated_id = ''i2'', sql_fails = False\<rparr>))"
    by blast
  then show ?thesis
    by (simp add: iso_date_sample parse_sample_form)
qed

end
